theory Spec2Isabelle
  imports Complex_Main "HOL-Library.Word" "HOL-Library.Sublist"
begin

section \<open>JavaScript values\<close>

text \<open>
  A JavaScript string is a sequence of 16-bit code units: \<open>length\<close>, \<open>trim\<close>,
  \<open>startsWith\<close>, \<open>includes\<close> and a regular expression without the \<open>u\<close> flag all
  work on code units. \<open>lit\<close> turns an ASCII literal of the source into code units.
\<close>

type_synonym jsstring = "16 word list"

definition lit :: "string \<Rightarrow> jsstring" where
  "lit s = map of_char s"

text \<open>
  The values that cross the two scrapers: response bodies, parsed JSON envelopes, thrown
  errors (objects with \<open>message\<close> and \<open>code\<close> fields) and the fields of the result.
  Numbers are the integers (status codes and millisecond counts); \<open>NaN\<close> and fractions
  are not represented. An object is the list of its own properties.
\<close>

datatype jsvalue =
    JUndefined
  | JNull
  | JBool bool
  | JNumber int
  | JString jsstring
  | JArray "jsvalue list"
  | JObject "(jsstring \<times> jsvalue) list"

datatype jstype = TUndefined | TObject | TBoolean | TNumber | TString

fun typeof :: "jsvalue \<Rightarrow> jstype" where
  "typeof JUndefined = TUndefined"
| "typeof JNull = TObject"
| "typeof (JBool b) = TBoolean"
| "typeof (JNumber n) = TNumber"
| "typeof (JString s) = TString"
| "typeof (JArray xs) = TObject"
| "typeof (JObject fs) = TObject"

text \<open>\<open>!v\<close> is \<open>\<not> truthy v\<close>.\<close>

fun truthy :: "jsvalue \<Rightarrow> bool" where
  "truthy JUndefined = False"
| "truthy JNull = False"
| "truthy (JBool b) = b"
| "truthy (JNumber n) = (n \<noteq> 0)"
| "truthy (JString s) = (s \<noteq> [])"
| "truthy (JArray xs) = True"
| "truthy (JObject fs) = True"

fun nullish :: "jsvalue \<Rightarrow> bool" where
  "nullish JUndefined = True"
| "nullish JNull = True"
| "nullish v = False"

text \<open>\<open>a || b\<close> and \<open>a ?? b\<close>.\<close>

definition js_or :: "jsvalue \<Rightarrow> jsvalue \<Rightarrow> jsvalue" where
  "js_or a b = (if truthy a then a else b)"

definition js_coalesce :: "jsvalue \<Rightarrow> jsvalue \<Rightarrow> jsvalue" where
  "js_coalesce a b = (if nullish a then b else a)"

text \<open>
  Reading a property. The keys the scrapers read (\<open>params\<close>, \<open>wait\<close>, \<open>content\<close>,
  \<open>pageStatusCode\<close>, \<open>pageError\<close>, \<open>code\<close>, \<open>message\<close>) are not properties of a
  string, number, boolean or array, nor of \<open>Object.prototype\<close>, so on anything but an
  object that has the key the read gives \<open>undefined\<close>. On \<open>null\<close> and \<open>undefined\<close>
  the read \<open>v.k\<close> throws a \<open>TypeError\<close> (the message is the one of V8), and the
  optional read \<open>v?.k\<close> gives \<open>undefined\<close>.
\<close>

fun propOf :: "jsvalue \<Rightarrow> jsstring \<Rightarrow> jsvalue" where
  "propOf (JObject fs) k = (case map_of fs k of None \<Rightarrow> JUndefined | Some v \<Rightarrow> v)"
| "propOf v k = JUndefined"

definition typeError :: "jsvalue \<Rightarrow> jsstring \<Rightarrow> jsvalue" where
  "typeError v k =
     JObject [(lit ''name'', JString (lit ''TypeError'')),
              (lit ''message'',
               JString (lit ''Cannot read properties of '' @
                        (if v = JNull then lit ''null'' else lit ''undefined'') @
                        lit '' (reading '' @ [0x27] @ k @ [0x27] @ lit '')''))]"

definition getProp :: "jsvalue \<Rightarrow> jsstring \<Rightarrow> jsvalue + jsvalue" where
  "getProp v k = (if nullish v then Inl (typeError v k) else Inr (propOf v k))"

definition optProp :: "jsvalue \<Rightarrow> jsstring \<Rightarrow> jsvalue" where
  "optProp v k = (if nullish v then JUndefined else propOf v k)"

text \<open>Sequencing of steps that may throw: \<open>Inl\<close> is the thrown value.\<close>

definition andThen :: "'e + 'a \<Rightarrow> ('a \<Rightarrow> 'e + 'b) \<Rightarrow> 'e + 'b" where
  "andThen m f = (case m of Inl e \<Rightarrow> Inl e | Inr x \<Rightarrow> f x)"

section \<open>The PDF classifier\<close>

text \<open>
  \<open>String.prototype.trim\<close> removes the code units of WhiteSpace and LineTerminator
  from both ends.
\<close>

definition isWhiteSpace :: "16 word \<Rightarrow> bool" where
  "isWhiteSpace c \<longleftrightarrow>
     c = 0x0009 \<or> c = 0x000A \<or> c = 0x000B \<or> c = 0x000C \<or> c = 0x000D \<or> c = 0x0020 \<or>
     c = 0x00A0 \<or> c = 0x1680 \<or> (0x2000 \<le> c \<and> c \<le> 0x200A) \<or> c = 0x2028 \<or>
     c = 0x2029 \<or> c = 0x202F \<or> c = 0x205F \<or> c = 0x3000 \<or> c = 0xFEFF"

definition trim :: "jsstring \<Rightarrow> jsstring" where
  "trim s = rev (dropWhile isWhiteSpace (rev (dropWhile isWhiteSpace s)))"

definition startsWith :: "jsstring \<Rightarrow> jsstring \<Rightarrow> bool" where
  "startsWith s p = prefix p s"

definition js_includes :: "jsstring \<Rightarrow> jsstring \<Rightarrow> bool" where
  "js_includes s sub = sublist sub s"

text \<open>The character class \<open>[\x00-\x08\x0B\x0C\x0E-\x1F\x7F-\x9F]\<close>.\<close>

definition nonPrintable :: "16 word \<Rightarrow> bool" where
  "nonPrintable c \<longleftrightarrow>
     c \<le> 0x08 \<or> c = 0x0B \<or> c = 0x0C \<or> (0x0E \<le> c \<and> c \<le> 0x1F) \<or> (0x7F \<le> c \<and> c \<le> 0x9F)"

text \<open>The four structural markers of the second rule, all present in the trimmed text.\<close>

definition hasAllMarkers :: "jsstring \<Rightarrow> bool" where
  "hasAllMarkers t \<longleftrightarrow>
     js_includes t (lit ''obj'') \<and> js_includes t (lit ''endobj'') \<and>
     js_includes t (lit ''stream'') \<and> js_includes t (lit ''endstream'')"

text \<open>
  The third rule: \<open>totalChars > 100 && nonPrintableChars / totalChars > 0.1\<close>. The
  quotient of the two counts is taken in the rationals; for counts below \<open>2 ^ 53\<close> the
  double-precision comparison with \<open>0.1\<close> has the same outcome.
\<close>

definition highNonPrintableRatio :: "jsstring \<Rightarrow> bool" where
  "highNonPrintableRatio content \<longleftrightarrow>
     (let nonPrintableChars = length (filter nonPrintable content);
          totalChars = length content
      in totalChars > 100 \<and> rat_of_nat nonPrintableChars / rat_of_nat totalChars > 1 / 10)"

definition isPDFContent :: "jsvalue \<Rightarrow> bool" where
  "isPDFContent v =
     (if \<not> truthy v \<or> typeof v \<noteq> TString then False
      else case v of
        JString content \<Rightarrow>
          (let trimmedContent = trim content in
           if startsWith trimmedContent (lit ''%PDF-'') then True
           else if hasAllMarkers trimmedContent then True
           else if highNonPrintableRatio content then True
           else False)
      | _ \<Rightarrow> False)"

section \<open>The two scrapers\<close>

text \<open>
  The result both scrapers return. Its fields hold whatever the code puts there, so they
  are JavaScript values; a field is absent when it is \<open>null\<close> or \<open>undefined\<close>.
\<close>

record FetchResult =
  content :: jsvalue
  pageStatusCode :: jsvalue
  pageError :: jsvalue

text \<open>
  The log record \<open>logParams\<close>, without its two clock fields (\<open>startTime\<close> and
  \<open>time_taken_seconds\<close>, set from \<open>Date.now()\<close>). It is local to the call; the model
  returns its final state beside the result, so that the exit path taken can be read
  from it (\<open>success\<close> is set on the success path only).
\<close>

record LogParams =
  url :: jsstring
  scraper :: jsstring
  success :: bool
  response_code :: jsvalue
  error_message :: jsvalue
  html :: jsvalue

definition initLogParams :: "jsstring \<Rightarrow> jsstring \<Rightarrow> LogParams" where
  "initLogParams u s =
     \<lparr>url = u, scraper = s, success = False, response_code = JNull,
      error_message = JNull, html = JString []\<rparr>"

text \<open>
  What the HTTP client hands back: a response (\<open>Inr\<close>) or a rejection with the thrown
  error (\<open>Inl\<close>). With \<open>transformResponse: [(data) => data]\<close> the body \<open>data\<close> is
  handed over as received; its static type is \<open>any\<close>.
\<close>

record Response =
  status :: int
  statusText :: jsstring
  data :: jsvalue

type_synonym outcome = "jsvalue + (FetchResult \<times> LogParams)"

definition pdfMessage :: jsstring where
  "pdfMessage = lit ''PDF content detected - not suitable for text extraction''"

text \<open>
  The \<open>catch (error)\<close> block, the same in both scrapers. Reading \<open>error.code\<close> of a
  thrown \<open>null\<close> or \<open>undefined\<close> throws in turn, and that leaves the function.
\<close>

definition catchError :: "LogParams \<Rightarrow> jsvalue \<Rightarrow> outcome" where
  "catchError logParams error =
     andThen (getProp error (lit ''code'')) (\<lambda>code.
       if code = JString (lit ''ECONNABORTED'') then
         (let lg = logParams\<lparr>error_message := JString (lit ''Request timed out'')\<rparr>
          in Inr (\<lparr>content = JString [], pageStatusCode = JNull,
                   pageError = error_message lg\<rparr>, lg))
       else
         andThen (getProp error (lit ''message'')) (\<lambda>message.
           (let lg = logParams\<lparr>error_message := js_or message error\<rparr>
            in Inr (\<lparr>content = JString [], pageStatusCode = JNull,
                     pageError = error_message lg\<rparr>, lg))))"

subsection \<open>scrapeWithFetch\<close>

text \<open>
  \<open>axios_get\<close> is the HTTP client, called with the URL and the timeout;
  \<open>universalTimeout\<close> is the imported constant. Calls of \<open>Logger.debug\<close> write to the
  log sink only and are left out.
\<close>

definition scrapeWithFetch ::
  "(jsstring \<Rightarrow> int \<Rightarrow> jsvalue + Response) \<Rightarrow> int \<Rightarrow> jsstring \<Rightarrow> outcome" where
  "scrapeWithFetch axios_get universalTimeout u =
     (let logParams = initLogParams u (lit ''fetch'') in
      case axios_get u universalTimeout of
        Inl error \<Rightarrow> catchError logParams error
      | Inr response \<Rightarrow>
          if status response \<noteq> 200 then
            (let lg = logParams\<lparr>error_message := JString (statusText response),
                                response_code := JNumber (status response)\<rparr>
             in Inr (\<lparr>content = JString [],
                      pageStatusCode = JNumber (status response),
                      pageError = JString (statusText response)\<rparr>, lg))
          else
            (let text = data response in
             if isPDFContent text then
               (let lg = logParams\<lparr>error_message := JString pdfMessage,
                                   response_code := JNumber (status response)\<rparr>
                in Inr (\<lparr>content = JString [],
                         pageStatusCode = JNumber (status response),
                         pageError = JString pdfMessage\<rparr>, lg))
             else
               (let lg = logParams\<lparr>success := True, html := text,
                                   response_code := JNumber (status response)\<rparr>
                in Inr (\<lparr>content = text,
                         pageStatusCode = JNumber (status response),
                         pageError = JNull\<rparr>, lg))))"

subsection \<open>scrapeWithPlaywright\<close>

text \<open>
  The request posted to the microservice: the endpoint
  (\<open>process.env.PLAYWRIGHT_MICROSERVICE_URL\<close>), the three fields of the body, and the
  two operands of the timeout \<open>universalTimeout + waitParam\<close>.
\<close>

record PostRequest =
  endpoint :: jsvalue
  post_url :: jsstring
  wait_after_load :: jsvalue
  post_headers :: jsvalue
  timeout_base :: int
  timeout_wait :: jsvalue

text \<open>\<open>reqParams["params"]?.wait ?? waitFor\<close>\<close>

definition waitParamOf :: "jsvalue \<Rightarrow> int \<Rightarrow> jsvalue + jsvalue" where
  "waitParamOf reqParams waitFor =
     andThen (getProp reqParams (lit ''params'')) (\<lambda>params.
       Inr (js_coalesce (optProp params (lit ''wait'')) (JNumber waitFor)))"

definition playwrightRequest ::
  "jsvalue \<Rightarrow> int \<Rightarrow> jsstring \<Rightarrow> jsvalue \<Rightarrow> jsvalue \<Rightarrow> PostRequest" where
  "playwrightRequest ep universalTimeout u waitParam hdrs =
     \<lparr>endpoint = ep, post_url = u, wait_after_load = waitParam, post_headers = hdrs,
      timeout_base = universalTimeout, timeout_wait = waitParam\<rparr>"

text \<open>
  The inner \<open>try\<close> block on a response of status 200: parse the body and classify its
  \<open>content\<close>. \<open>JSON_parse\<close> is the built-in parser: it returns the parsed value or
  throws.
\<close>

definition parseEnvelope ::
  "(jsvalue \<Rightarrow> jsvalue + jsvalue) \<Rightarrow> LogParams \<Rightarrow> jsvalue \<Rightarrow> outcome" where
  "parseEnvelope JSON_parse logParams textData =
     andThen (JSON_parse textData) (\<lambda>envelope.
     andThen (getProp envelope (lit ''content'')) (\<lambda>h.
       if isPDFContent h then
         andThen (getProp envelope (lit ''pageStatusCode'')) (\<lambda>code.
           (let lg = logParams\<lparr>error_message := JString pdfMessage, response_code := code\<rparr>
            in Inr (\<lparr>content = JString [], pageStatusCode = code,
                     pageError = JString pdfMessage\<rparr>, lg)))
       else
         andThen (getProp envelope (lit ''pageStatusCode'')) (\<lambda>code.
         andThen (getProp envelope (lit ''pageError'')) (\<lambda>err.
           (let lg = logParams\<lparr>success := True, html := h, response_code := code,
                               error_message := err\<rparr>
            in Inr (\<lparr>content = js_coalesce h (JString []), pageStatusCode = code,
                     pageError = err\<rparr>, lg))))))"

text \<open>The inner \<open>catch (jsonError)\<close> block.\<close>

definition catchJsonError :: "LogParams \<Rightarrow> jsvalue \<Rightarrow> outcome" where
  "catchJsonError logParams jsonError =
     andThen (getProp jsonError (lit ''message'')) (\<lambda>message.
       (let lg = logParams\<lparr>error_message := js_or message jsonError\<rparr>
        in Inr (\<lparr>content = JString [], pageStatusCode = JNull,
                 pageError = error_message lg\<rparr>, lg)))"

text \<open>What follows the POST: the status check, then the inner \<open>try\<close>/\<open>catch\<close>.\<close>

definition handleResponse ::
  "(jsvalue \<Rightarrow> jsvalue + jsvalue) \<Rightarrow> LogParams \<Rightarrow> Response \<Rightarrow> outcome" where
  "handleResponse JSON_parse logParams response =
     (if status response \<noteq> 200 then
        (let lg = logParams\<lparr>error_message := optProp (data response) (lit ''pageError''),
                            response_code := optProp (data response) (lit ''pageStatusCode'')\<rparr>
         in Inr (\<lparr>content = JString [],
                  pageStatusCode = optProp (data response) (lit ''pageStatusCode''),
                  pageError = optProp (data response) (lit ''pageError'')\<rparr>, lg))
      else
        (let textData = data response in
         case parseEnvelope JSON_parse logParams textData of
           Inr r \<Rightarrow> Inr r
         | Inl jsonError \<Rightarrow> catchJsonError logParams jsonError))"

text \<open>
  \<open>generateRequestParams\<close> is the imported provider (it returns a value or throws) and
  \<open>axios_post\<close> the HTTP client. Everything from the provider call to the end of the
  inner \<open>catch\<close> is inside the outer \<open>try\<close>, whose \<open>catch\<close> is \<open>catchError\<close>. No
  step changes \<open>logParams\<close> before it may throw, so the outer \<open>catch\<close> sees the record
  as it was created.
\<close>

definition scrapeWithPlaywright ::
  "(jsstring \<Rightarrow> jsvalue + jsvalue) \<Rightarrow> (PostRequest \<Rightarrow> jsvalue + Response) \<Rightarrow>
   (jsvalue \<Rightarrow> jsvalue + jsvalue) \<Rightarrow> jsvalue \<Rightarrow> int \<Rightarrow>
   jsstring \<Rightarrow> int \<Rightarrow> jsvalue \<Rightarrow> outcome" where
  "scrapeWithPlaywright generateRequestParams axios_post JSON_parse ep universalTimeout
       u waitFor hdrs =
     (let logParams = initLogParams u (lit ''playwright'') in
      case
        andThen (generateRequestParams u) (\<lambda>reqParams.
        andThen (waitParamOf reqParams waitFor) (\<lambda>waitParam.
        andThen (axios_post (playwrightRequest ep universalTimeout u waitParam hdrs))
          (\<lambda>response. handleResponse JSON_parse logParams response)))
      of
        Inr r \<Rightarrow> Inr r
      | Inl error \<Rightarrow> catchError logParams error)"

section \<open>The HTTP client\<close>

text \<open>
  Both scrapers call axios with no \<open>validateStatus\<close> option and with
  \<open>transformResponse: [(data) => data]\<close>. What the server answers is a status, a
  reason phrase and a body; axios hands the body over as the text received, resolves the
  call when the status is in the 2xx range (or is 0) and rejects it otherwise with an
  error whose message names the status. Of that error the scrapers read \<open>code\<close> and
  \<open>message\<close> only.
\<close>

record HttpAnswer =
  http_status :: int
  reason_phrase :: jsstring
  body :: jsstring

function digits :: "nat \<Rightarrow> jsstring" where
  "digits n = (if n < 10 then [of_nat (48 + n)]
               else digits (n div 10) @ [of_nat (48 + n mod 10)])"
  by pat_completeness auto
termination
  by (relation "measure id") auto

declare digits.simps [simp del]

definition numberToString :: "int \<Rightarrow> jsstring" where
  "numberToString n = (if n < 0 then 0x2D # digits (nat (- n)) else digits (nat n))"

definition validateStatus :: "int \<Rightarrow> bool" where
  "validateStatus s \<longleftrightarrow> 200 \<le> s \<and> s < 300"

definition requestFailed :: "int \<Rightarrow> jsvalue" where
  "requestFailed s =
     JObject [(lit ''name'', JString (lit ''AxiosError'')),
              (lit ''message'',
               JString (lit ''Request failed with status code '' @ numberToString s)),
              (lit ''code'',
               if 400 \<le> s \<and> s < 500 then JString (lit ''ERR_BAD_REQUEST'')
               else if 500 \<le> s \<and> s < 600 then JString (lit ''ERR_BAD_RESPONSE'')
               else JUndefined)]"

definition settle :: "Response \<Rightarrow> jsvalue + Response" where
  "settle response =
     (if status response = 0 \<or> validateStatus (status response) then Inr response
      else Inl (requestFailed (status response)))"

definition axiosResponse :: "HttpAnswer \<Rightarrow> Response" where
  "axiosResponse a =
     \<lparr>status = http_status a, statusText = reason_phrase a, data = JString (body a)\<rparr>"

text \<open>
  \<open>http\<close> is the network: it answers, or fails with an error (a timeout is the error
  with code \<open>ECONNABORTED\<close>).
\<close>

definition axiosGet ::
  "(jsstring \<Rightarrow> int \<Rightarrow> jsvalue + HttpAnswer) \<Rightarrow> jsstring \<Rightarrow> int \<Rightarrow> jsvalue + Response" where
  "axiosGet http u t = andThen (http u t) (\<lambda>a. settle (axiosResponse a))"

definition axiosPost ::
  "(PostRequest \<Rightarrow> jsvalue + HttpAnswer) \<Rightarrow> PostRequest \<Rightarrow> jsvalue + Response" where
  "axiosPost http req = andThen (http req) (\<lambda>a. settle (axiosResponse a))"

text \<open>
  The first three steps of \<open>scrapeWithPlaywright\<close> taken together: what the outer
  \<open>try\<close> block has when the POST is over, the response or the value thrown on the way.
\<close>

definition requestOutcome ::
  "(jsstring \<Rightarrow> jsvalue + jsvalue) \<Rightarrow> (PostRequest \<Rightarrow> jsvalue + Response) \<Rightarrow>
   jsvalue \<Rightarrow> int \<Rightarrow> jsstring \<Rightarrow> int \<Rightarrow> jsvalue \<Rightarrow> jsvalue + Response" where
  "requestOutcome generateRequestParams axios_post ep universalTimeout u waitFor hdrs =
     andThen (generateRequestParams u) (\<lambda>reqParams.
     andThen (waitParamOf reqParams waitFor) (\<lambda>waitParam.
       axios_post (playwrightRequest ep universalTimeout u waitParam hdrs)))"

section \<open>Reading an outcome\<close>

text \<open>The result a call returns, if it returns one (a call that throws returns none).\<close>

definition returned :: "outcome \<Rightarrow> FetchResult option" where
  "returned out = (case out of Inl e \<Rightarrow> None | Inr (r, lg) \<Rightarrow> Some r)"

text \<open>
  The pairing of status and error: a status that is present and is not 200 comes with an
  error that is present. \<open>bodyPaired\<close> says the same of the two fields of a body or
  envelope, as the optional read sees them.
\<close>

definition statusPaired :: "FetchResult \<Rightarrow> bool" where
  "statusPaired r \<longleftrightarrow>
     (\<not> nullish (pageStatusCode r) \<and> pageStatusCode r \<noteq> JNumber 200 \<longrightarrow>
      \<not> nullish (pageError r))"

definition bodyPaired :: "jsvalue \<Rightarrow> bool" where
  "bodyPaired v \<longleftrightarrow>
     (\<not> nullish (optProp v (lit ''pageStatusCode'')) \<and>
      optProp v (lit ''pageStatusCode'') \<noteq> JNumber 200 \<longrightarrow>
      \<not> nullish (optProp v (lit ''pageError'')))"

section \<open>Properties of the classifier\<close>

lemma trim_Nil: "trim [] = []"
  by (simp add: trim_def)

lemma no_marker_in_empty: "\<not> hasAllMarkers []"
  by (simp add: hasAllMarkers_def js_includes_def lit_def)

lemma isPDFContent_nonempty:
  "isPDFContent (JString s) \<longleftrightarrow>
     s \<noteq> [] \<and> (startsWith (trim s) (lit ''%PDF-'') \<or> hasAllMarkers (trim s) \<or>
               highNonPrintableRatio s)"
  by (simp add: isPDFContent_def Let_def)

lemma isPDFContent_string:
  "isPDFContent (JString s) \<longleftrightarrow>
     startsWith (trim s) (lit ''%PDF-'') \<or> hasAllMarkers (trim s) \<or> highNonPrintableRatio s"
  by (cases "s = []")
     (auto simp add: isPDFContent_nonempty trim_Nil no_marker_in_empty startsWith_def
        lit_def highNonPrintableRatio_def)

text \<open>
  C9. The classifier is a total function to the booleans (no branch of it throws), and on
  every value that is not a string, \<open>null\<close> and \<open>undefined\<close> included, it answers
  false.
\<close>

theorem isPDFContent_non_string:
  "(\<forall>s. v \<noteq> JString s) \<Longrightarrow> isPDFContent v = False"
  by (cases v) (simp_all add: isPDFContent_def)

theorem isPDFContent_non_string_witness:
  "isPDFContent JUndefined = False \<and> isPDFContent JNull = False \<and>
   isPDFContent (JNumber 7) = False \<and> isPDFContent (JObject []) = False"
proof -
  have "\<forall>s. JUndefined \<noteq> JString s" and "\<forall>s. JNull \<noteq> JString s"
    and "\<forall>s. JNumber 7 \<noteq> JString s" and "\<forall>s. JObject [] \<noteq> JString s"
    by simp_all
  then show ?thesis
    using isPDFContent_non_string [of JUndefined] isPDFContent_non_string [of JNull]
      isPDFContent_non_string [of "JNumber 7"] isPDFContent_non_string [of "JObject []"]
    by blast
qed

text \<open>
  C7. A string of at most 100 code units whose trimmed form neither starts with
  \<open>%PDF-\<close> nor holds all four markers is classified as not a PDF, however many of its
  code units are non-printable.
\<close>

theorem isPDFContent_short:
  "length s \<le> 100 \<Longrightarrow> \<not> startsWith (trim s) (lit ''%PDF-'') \<Longrightarrow>
   \<not> hasAllMarkers (trim s) \<Longrightarrow> isPDFContent (JString s) = False"
  by (simp add: isPDFContent_string highNonPrintableRatio_def)

theorem isPDFContent_short_witness:
  "length (replicate 100 (1 :: 16 word)) \<le> 100 \<and>
   length (filter nonPrintable (replicate 100 1)) = 100 \<and>
   isPDFContent (JString (replicate 100 1)) = False"
proof -
  have l: "length (replicate 100 (1 :: 16 word)) \<le> 100" by simp
  have p: "\<not> startsWith (trim (replicate 100 1)) (lit ''%PDF-'')" by code_simp
  have m: "\<not> hasAllMarkers (trim (replicate 100 1))" by code_simp
  have n: "length (filter nonPrintable (replicate 100 1)) = 100"
    by (simp add: nonPrintable_def)
  from isPDFContent_short [OF l p m] l n show ?thesis by simp
qed

text \<open>
  C4, as the code has it. A string whose trimmed form holds all four markers is
  classified as a PDF. A string whose trimmed form lacks one of them is classified by the
  two other rules: it is a PDF exactly when its trimmed form starts with \<open>%PDF-\<close> or
  it is longer than 100 code units with more than a tenth of them non-printable.
\<close>

theorem isPDFContent_markers:
  "(hasAllMarkers (trim s) \<longrightarrow> isPDFContent (JString s)) \<and>
   (\<not> hasAllMarkers (trim s) \<longrightarrow>
      isPDFContent (JString s) =
        (startsWith (trim s) (lit ''%PDF-'') \<or> highNonPrintableRatio s))"
  by (simp add: isPDFContent_string)

theorem isPDFContent_markers_witness:
  "hasAllMarkers (trim (lit '' obj endobj stream endstream '')) \<and>
   isPDFContent (JString (lit '' obj endobj stream endstream '')) \<and>
   \<not> hasAllMarkers (trim (lit ''obj endobj stream'')) \<and>
   \<not> isPDFContent (JString (lit ''obj endobj stream''))"
proof -
  have a: "hasAllMarkers (trim (lit '' obj endobj stream endstream ''))" by code_simp
  have b: "\<not> hasAllMarkers (trim (lit ''obj endobj stream''))" by code_simp
  have c: "\<not> startsWith (trim (lit ''obj endobj stream'')) (lit ''%PDF-'')" by code_simp
  have d: "\<not> highNonPrintableRatio (lit ''obj endobj stream'')" by code_simp
  from isPDFContent_markers [of "lit '' obj endobj stream endstream ''"] a
  have "isPDFContent (JString (lit '' obj endobj stream endstream ''))" by blast
  moreover from isPDFContent_markers [of "lit ''obj endobj stream''"] b c d
  have "\<not> isPDFContent (JString (lit ''obj endobj stream''))" by blast
  ultimately show ?thesis using a b by blast
qed

text \<open>
  C4, as the claim has it, fails: a text with all four markers followed by 100 control
  characters loses the marker \<open>endstream\<close> and is still classified as a PDF, by the
  ratio rule.
\<close>

theorem isPDFContent_marker_removed_counterexample:
  "isPDFContent (JString (lit ''obj endobj stream endstream '' @ replicate 100 1)) \<and>
   \<not> js_includes (trim (lit ''obj endobj stream  '' @ replicate 100 1)) (lit ''endstream'') \<and>
   isPDFContent (JString (lit ''obj endobj stream  '' @ replicate 100 1))"
  by code_simp

section \<open>Properties of the scrapers\<close>

lemma getProp_ok: "\<not> nullish v \<Longrightarrow> getProp v k = Inr (propOf v k)"
  by (simp add: getProp_def)

lemma optProp_ok: "\<not> nullish v \<Longrightarrow> optProp v k = propOf v k"
  by (simp add: optProp_def)

lemma andThen_Inr [simp]: "andThen (Inr x) f = f x"
  by (simp add: andThen_def)

lemma andThen_Inl [simp]: "andThen (Inl e) f = Inl e"
  by (simp add: andThen_def)

lemma getProp_nullish: "nullish v \<Longrightarrow> getProp v k = Inl (typeError v k)"
  by (simp add: getProp_def)

lemma typeError_not_nullish: "\<not> nullish (typeError v k)"
  by (simp add: typeError_def)

lemma propOf_nullish: "nullish v \<Longrightarrow> propOf v k = JUndefined"
  by (cases v) simp_all

lemma isPDFContent_nullish: "nullish v \<Longrightarrow> \<not> isPDFContent v"
  by (cases v) (simp_all add: isPDFContent_def)

lemma catchError_ok:
  "\<not> nullish error \<Longrightarrow>
   catchError lg error =
     (if propOf error (lit ''code'') = JString (lit ''ECONNABORTED'')
      then Inr (\<lparr>content = JString [], pageStatusCode = JNull,
                 pageError = JString (lit ''Request timed out'')\<rparr>,
                lg\<lparr>error_message := JString (lit ''Request timed out'')\<rparr>)
      else Inr (\<lparr>content = JString [], pageStatusCode = JNull,
                 pageError = js_or (propOf error (lit ''message'')) error\<rparr>,
                lg\<lparr>error_message := js_or (propOf error (lit ''message'')) error\<rparr>))"
  by (simp add: catchError_def getProp_ok Let_def)

lemma catchError_nullish:
  "nullish error \<Longrightarrow> catchError lg error = Inl (typeError error (lit ''code''))"
  by (simp add: catchError_def getProp_def)

lemma catchError_content:
  "catchError lg error = Inr (r, lg') \<Longrightarrow>
   content r = JString [] \<and> pageStatusCode r = JNull \<and> success lg' = success lg"
  by (cases "nullish error") (auto simp add: catchError_ok catchError_nullish split: if_splits)

lemma catchJsonError_content:
  "catchJsonError lg e = Inr (r, lg') \<Longrightarrow> content r = JString [] \<and> pageStatusCode r = JNull"
  by (auto simp add: catchJsonError_def andThen_def Let_def split: sum.splits)

lemma bodyPaired_props:
  "bodyPaired env \<Longrightarrow> \<not> nullish env \<Longrightarrow>
   statusPaired \<lparr>content = c, pageStatusCode = propOf env (lit ''pageStatusCode''),
                  pageError = propOf env (lit ''pageError'')\<rparr>"
  by (simp add: bodyPaired_def statusPaired_def optProp_def)

lemma catchError_paired: "catchError lg e = Inr (r, lg') \<Longrightarrow> statusPaired r"
  by (auto dest: catchError_content simp add: statusPaired_def)

lemmas scraper_defs = scrapeWithPlaywright_def scrapeWithFetch_def handleResponse_def parseEnvelope_def
  catchJsonError_def catchError_def waitParamOf_def playwrightRequest_def initLogParams_def
  getProp_def optProp_def js_or_def js_coalesce_def andThen_def returned_def Let_def pdfMessage_def

lemma playwright_via_requestOutcome:
  "scrapeWithPlaywright gen post parse ep T u waitFor hdrs =
     (case andThen (requestOutcome gen post ep T u waitFor hdrs)
             (handleResponse parse (initLogParams u (lit ''playwright''))) of
        Inr r \<Rightarrow> Inr r
      | Inl error \<Rightarrow> catchError (initLogParams u (lit ''playwright'')) error)"
  by (simp add: scrapeWithPlaywright_def requestOutcome_def andThen_def Let_def split: sum.splits)

lemma catchError_returns:
  "\<not> nullish e \<Longrightarrow> \<exists>r lg'. catchError lg e = Inr (r, lg') \<and> content
      r = JString [] \<and> pageStatusCode r = JNull"
  by (simp add: catchError_ok)

lemma catchJsonError_ok:
  "\<not> nullish e \<Longrightarrow> catchJsonError lg e =
     Inr (\<lparr>content = JString [], pageStatusCode = JNull,
            pageError = js_or (propOf e (lit ''message'')) e\<rparr>,
          lg\<lparr>error_message := js_or (propOf e (lit ''message'')) e\<rparr>)"
  by (simp add: catchJsonError_def getProp_ok Let_def)

lemma catchJsonError_nullish:
  "nullish e \<Longrightarrow> catchJsonError lg e = Inl (typeError e (lit ''message''))"
  by (simp add: catchJsonError_def getProp_nullish)

lemma handleResponse_non200:
  "status resp \<noteq> 200 \<Longrightarrow>
   handleResponse parse lg resp =
     Inr (\<lparr>content = JString [],
            pageStatusCode = optProp (data resp) (lit ''pageStatusCode''),
            pageError = optProp (data resp) (lit ''pageError'')\<rparr>,
          lg\<lparr>error_message := optProp (data resp) (lit ''pageError''),
             response_code := optProp (data resp) (lit ''pageStatusCode'')\<rparr>)"
  by (simp add: handleResponse_def Let_def)

lemma handleResponse_parse_error:
  "status resp = 200 \<Longrightarrow> parse (data resp) = Inl e \<Longrightarrow>
   handleResponse parse lg resp = catchJsonError lg e"
  by (simp add: handleResponse_def parseEnvelope_def)

lemma handleResponse_null_envelope:
  "status resp = 200 \<Longrightarrow> parse (data resp) = Inr env \<Longrightarrow> nullish env
      \<Longrightarrow>
   handleResponse parse lg resp = catchJsonError lg (typeError env (lit ''content''))"
  by (simp add: handleResponse_def parseEnvelope_def getProp_nullish)

lemma handleResponse_pdf:
  "status resp = 200 \<Longrightarrow> parse (data resp) = Inr env \<Longrightarrow>
   isPDFContent (propOf env (lit ''content'')) \<Longrightarrow>
   handleResponse parse lg resp =
     Inr (\<lparr>content = JString [], pageStatusCode = propOf env (lit ''pageStatusCode''),
            pageError = JString pdfMessage\<rparr>,
          lg\<lparr>error_message := JString pdfMessage,
             response_code := propOf env (lit ''pageStatusCode'')\<rparr>)"
proof -
  assume a: "status resp = 200" "parse (data resp) = Inr env"
    "isPDFContent (propOf env (lit ''content''))"
  then have "\<not> nullish env" using isPDFContent_nullish propOf_nullish by fastforce
  with a show ?thesis
    by (simp add: handleResponse_def parseEnvelope_def getProp_ok Let_def)
qed

lemma handleResponse_success:
  "status resp = 200 \<Longrightarrow> parse (data resp) = Inr env \<Longrightarrow> \<not> nullish
      env \<Longrightarrow>
   \<not> isPDFContent (propOf env (lit ''content'')) \<Longrightarrow>
   handleResponse parse lg resp =
     Inr (\<lparr>content = js_coalesce (propOf env (lit ''content'')) (JString []),
            pageStatusCode = propOf env (lit ''pageStatusCode''),
            pageError = propOf env (lit ''pageError'')\<rparr>,
          lg\<lparr>success := True, html := propOf env (lit ''content''),
             response_code := propOf env (lit ''pageStatusCode''),
             error_message := propOf env (lit ''pageError'')\<rparr>)"
  by (simp add: handleResponse_def parseEnvelope_def getProp_ok Let_def)

lemma playwright_rejected_content:
  assumes "requestOutcome gen post ep T u waitFor hdrs = Inl e" and "\<not> nullish e"
  shows "map_option content (returned (scrapeWithPlaywright gen post parse ep T u waitFor hdrs))
     = Some (JString [])"
  using assms by (simp add: playwright_via_requestOutcome catchError_ok returned_def)

lemma playwright_non200_content:
  assumes "requestOutcome gen post ep T u waitFor hdrs = Inr resp" and "status resp \<noteq> 200"
  shows "map_option content (returned (scrapeWithPlaywright gen post parse ep T u waitFor hdrs))
     = Some (JString [])"
  using assms by (simp add: playwright_via_requestOutcome handleResponse_non200 returned_def)

lemma catchJson_then_catch_content:
  "map_option content (returned (case catchJsonError lg e of Inr r \<Rightarrow> Inr r
      | Inl error \<Rightarrow> catchError lg error)) = Some (JString [])"
  by (cases "nullish e")
     (simp_all add: catchJsonError_ok catchJsonError_nullish catchError_ok
        typeError_not_nullish returned_def)

lemma playwright_parse_error_content:
  assumes "requestOutcome gen post ep T u waitFor hdrs = Inr resp" and "status resp = 200"
    and "parse (data resp) = Inl e"
  shows "map_option content (returned (scrapeWithPlaywright gen post parse ep T u waitFor hdrs))
     = Some (JString [])"
  using assms
  by (simp add: playwright_via_requestOutcome handleResponse_parse_error
      catchJson_then_catch_content)

lemma playwright_null_envelope_content:
  assumes "requestOutcome gen post ep T u waitFor hdrs = Inr resp" and "status resp = 200"
    and "parse (data resp) = Inr env" and "nullish env"
  shows "map_option content (returned (scrapeWithPlaywright gen post parse ep T u waitFor hdrs))
     = Some (JString [])"
  using assms
  by (simp add: playwright_via_requestOutcome handleResponse_null_envelope
      catchJson_then_catch_content)

lemma playwright_pdf_content:
  assumes "requestOutcome gen post ep T u waitFor hdrs = Inr resp" and "status resp = 200"
    and "parse (data resp) = Inr env" and "isPDFContent (propOf env (lit ''content''))"
  shows "map_option content (returned (scrapeWithPlaywright gen post parse ep T u waitFor hdrs))
     = Some (JString [])"
  using assms
  by (simp add: playwright_via_requestOutcome handleResponse_pdf returned_def)

lemma fetch_rejected_content:
  "g u T = Inl e \<Longrightarrow> \<not> nullish e \<Longrightarrow>
   map_option content (returned (scrapeWithFetch g T u)) = Some (JString [])"
  by (simp add: scrapeWithFetch_def Let_def catchError_ok returned_def)

lemma fetch_non200_content:
  "g u T = Inr resp \<Longrightarrow> status resp \<noteq> 200 \<Longrightarrow>
   map_option content (returned (scrapeWithFetch g T u)) = Some (JString [])"
  by (simp add: scrapeWithFetch_def Let_def returned_def)

lemma fetch_pdf_content:
  "g u T = Inr resp \<Longrightarrow> status resp = 200 \<Longrightarrow> isPDFContent (data resp)
      \<Longrightarrow>
   map_option content (returned (scrapeWithFetch g T u)) = Some (JString [])"
  by (simp add: scrapeWithFetch_def Let_def returned_def)

lemma requestFailed_not_nullish: "\<not> nullish (requestFailed s)"
  by (simp add: requestFailed_def)

lemma settle_cases:
  "settle resp = Inr resp \<or> settle resp = Inl (requestFailed (status resp))"
  by (simp add: settle_def)

lemma settle_rejects:
  "status resp \<noteq> 0 \<Longrightarrow> \<not> validateStatus (status resp) \<Longrightarrow>
   settle resp = Inl (requestFailed (status resp))"
  by (simp add: settle_def)

lemma fetch_axios_status_content:
  assumes "http u T = Inr a" and "http_status a \<noteq> 200"
  shows "map_option content (returned (scrapeWithFetch (axiosGet http) T u)) = Some (JString [])"
proof -
  have g: "axiosGet http u T = settle (axiosResponse a)"
    using assms by (simp add: axiosGet_def)
  have st: "status (axiosResponse a) \<noteq> 200" using assms by (simp add: axiosResponse_def)
  from settle_cases [of "axiosResponse a"] show ?thesis
  proof
    assume "settle (axiosResponse a) = Inr (axiosResponse a)"
    with g have "axiosGet http u T = Inr (axiosResponse a)" by simp
    then show ?thesis using st by (rule fetch_non200_content)
  next
    assume "settle (axiosResponse a) = Inl (requestFailed (status (axiosResponse a)))"
    with g have "axiosGet http u T = Inl (requestFailed (status (axiosResponse a)))" by simp
    then show ?thesis using requestFailed_not_nullish by (rule fetch_rejected_content)
  qed
qed

lemma playwright_axios_status_content:
  assumes "gen u = Inr reqParams" and "waitParamOf reqParams waitFor = Inr waitParam"
    and "http (playwrightRequest ep T u waitParam hdrs) = Inr a" and "http_status a \<noteq> 200"
  shows "map_option content
     (returned (scrapeWithPlaywright gen (axiosPost http) parse ep T u waitFor hdrs))
     = Some (JString [])"
proof -
  have g: "requestOutcome gen (axiosPost http) ep T u waitFor hdrs = settle (axiosResponse a)"
    using assms by (simp add: requestOutcome_def axiosPost_def)
  have st: "status (axiosResponse a) \<noteq> 200" using assms by (simp add: axiosResponse_def)
  from settle_cases [of "axiosResponse a"] show ?thesis
  proof
    assume "settle (axiosResponse a) = Inr (axiosResponse a)"
    with g have "requestOutcome gen (axiosPost http) ep T u waitFor hdrs = Inr (axiosResponse a)"
      by simp
    then show ?thesis using st by (rule playwright_non200_content)
  next
    assume "settle (axiosResponse a) = Inl (requestFailed (status (axiosResponse a)))"
    with g have "requestOutcome gen (axiosPost http) ep T u waitFor hdrs
        = Inl (requestFailed (status (axiosResponse a)))"
      by simp
    then show ?thesis using requestFailed_not_nullish by (rule playwright_rejected_content)
  qed
qed

lemma fetch_exhaustive_content:
  assumes "returned (scrapeWithFetch g T u) = Some r"
    and "\<not> (\<exists>resp. g u T = Inr resp \<and> status resp = 200 \<and> \<not> isPDFContent
        (data resp))"
  shows "content r = JString []"
proof -
  have "map_option content (returned (scrapeWithFetch g T u)) = Some (JString [])"
  proof (cases "g u T")
    case (Inl e)
    show ?thesis
    proof (cases "nullish e")
      case True
      with Inl assms(1) show ?thesis
        by (simp add: scrapeWithFetch_def Let_def catchError_nullish returned_def)
    next
      case False
      with Inl show ?thesis by (rule fetch_rejected_content)
    qed
  next
    case (Inr resp)
    show ?thesis
    proof (cases "status resp = 200")
      case False
      with Inr show ?thesis by (rule fetch_non200_content)
    next
      case True
      with Inr assms(2) have "isPDFContent (data resp)" by blast
      with Inr True show ?thesis by (rule fetch_pdf_content)
    qed
  qed
  with assms(1) show ?thesis by simp
qed

lemma playwright_exhaustive_content:
  assumes "returned (scrapeWithPlaywright gen post parse ep T u waitFor hdrs) = Some r"
    and "\<not> (\<exists>resp env. requestOutcome gen post ep T u waitFor hdrs = Inr resp \<and>
             status resp = 200 \<and> parse (data resp) = Inr env \<and> \<not> nullish env \<and>
             \<not> isPDFContent (propOf env (lit ''content'')))"
  shows "content r = JString []"
proof -
  have "map_option content (returned (scrapeWithPlaywright gen post parse ep T u waitFor hdrs))
      = Some (JString [])"
  proof (cases "requestOutcome gen post ep T u waitFor hdrs")
    case (Inl e)
    show ?thesis
    proof (cases "nullish e")
      case True
      with Inl assms(1) show ?thesis
        by (simp add: playwright_via_requestOutcome catchError_nullish returned_def)
    next
      case False
      with Inl show ?thesis by (rule playwright_rejected_content)
    qed
  next
    case (Inr resp)
    show ?thesis
    proof (cases "status resp = 200")
      case False
      with Inr show ?thesis by (rule playwright_non200_content)
    next
      case True
      show ?thesis
      proof (cases "parse (data resp)")
        case (Inl e)
        with Inr True show ?thesis by (rule playwright_parse_error_content)
      next
        case env: (Inr env)
        show ?thesis
        proof (cases "nullish env")
          case True
          with Inr \<open>status resp = 200\<close> env show ?thesis
            by (rule playwright_null_envelope_content)
        next
          case False
          with Inr True env assms(2) have "isPDFContent (propOf env (lit ''content''))"
            by blast
          with Inr True env show ?thesis by (rule playwright_pdf_content)
        qed
      qed
    qed
  qed
  with assms(1) show ?thesis by simp
qed

lemma statusPaired_absent: "nullish (pageStatusCode r) \<Longrightarrow> statusPaired r"
  by (simp add: statusPaired_def)

lemma catchJson_then_catch_status:
  assumes "(case catchJsonError lg e of Inr r \<Rightarrow> Inr r | Inl error \<Rightarrow>
      catchError lg error)
      = Inr (r, lg')"
  shows "pageStatusCode r = JNull"
proof (cases "catchJsonError lg e")
  case (Inl x)
  with assms have "catchError lg x = Inr (r, lg')" by simp
  then show ?thesis by (simp add: catchError_content)
next
  case (Inr y)
  with assms have "catchJsonError lg e = Inr (r, lg')" by simp
  then show ?thesis by (simp add: catchJsonError_content)
qed

lemma returned_Some: "returned out = Some r \<Longrightarrow> \<exists>lg. out = Inr (r, lg)"
  by (auto simp add: returned_def split: sum.splits prod.splits)

lemma playwright_paired_general:
  assumes ret: "returned (scrapeWithPlaywright gen post parse ep T u waitFor hdrs) = Some r"
    and body: "\<forall>resp. requestOutcome gen post ep T u waitFor hdrs = Inr resp \<and>
             status resp \<noteq> 200 \<longrightarrow> bodyPaired (data resp)"
    and env: "\<forall>resp env. requestOutcome gen post ep T u waitFor hdrs = Inr resp \<and>
             status resp = 200 \<and> parse (data resp) = Inr env \<and>
             \<not> isPDFContent (propOf env (lit ''content'')) \<longrightarrow> bodyPaired env"
  shows "statusPaired r"
proof -
  let ?lg = "initLogParams u (lit ''playwright'')"
  from returned_Some [OF ret] obtain lg' where
    out: "scrapeWithPlaywright gen post parse ep T u waitFor hdrs = Inr (r, lg')" by blast
  show ?thesis
  proof (cases "requestOutcome gen post ep T u waitFor hdrs")
    case (Inl e)
    with out have "catchError ?lg e = Inr (r, lg')"
      by (simp add: playwright_via_requestOutcome)
    then show ?thesis by (rule catchError_paired)
  next
    case (Inr resp)
    show ?thesis
    proof (cases "status resp = 200")
      case False
      with Inr body have "bodyPaired (data resp)" by blast
      moreover from Inr False out have
        "r = \<lparr>content = JString [],
              pageStatusCode = optProp (data resp) (lit ''pageStatusCode''),
              pageError = optProp (data resp) (lit ''pageError'')\<rparr>"
        by (simp add: playwright_via_requestOutcome handleResponse_non200)
      ultimately show ?thesis by (simp add: statusPaired_def bodyPaired_def)
    next
      case True
      show ?thesis
      proof (cases "parse (data resp)")
        case (Inl e)
        with Inr True out have "pageStatusCode r = JNull"
          by (simp add: playwright_via_requestOutcome handleResponse_parse_error
              catchJson_then_catch_status)
        then show ?thesis by (simp add: statusPaired_absent)
      next
        case penv: (Inr e)
        show ?thesis
        proof (cases "nullish e")
          case True
          with Inr \<open>status resp = 200\<close> penv out have "pageStatusCode r = JNull"
            by (simp add: playwright_via_requestOutcome handleResponse_null_envelope
                catchJson_then_catch_status)
          then show ?thesis by (simp add: statusPaired_absent)
        next
          case False
          show ?thesis
          proof (cases "isPDFContent (propOf e (lit ''content''))")
            case True
            with Inr \<open>status resp = 200\<close> penv out show ?thesis
              by (auto simp add: playwright_via_requestOutcome handleResponse_pdf
                  statusPaired_def)
          next
            case pdf: False
            with Inr True penv env have bp: "bodyPaired e" by blast
            from Inr True penv False pdf out have
              "r = \<lparr>content = js_coalesce (propOf e (lit ''content'')) (JString []),
                    pageStatusCode = propOf e (lit ''pageStatusCode''),
                    pageError = propOf e (lit ''pageError'')\<rparr>"
              by (simp add: playwright_via_requestOutcome handleResponse_success)
            with bodyPaired_props [OF bp False] show ?thesis by simp
          qed
        qed
      qed
    qed
  qed
qed

lemma axiosPost_text_body:
  assumes "requestOutcome gen (axiosPost http) ep T u waitFor hdrs = Inr resp"
  shows "\<exists>s. data resp = JString s"
  using assms
  by (auto simp add: requestOutcome_def axiosPost_def andThen_def settle_def axiosResponse_def
      split: sum.splits if_splits)

lemma bodyPaired_text: "bodyPaired (JString s)"
  by (simp add: bodyPaired_def optProp_def)

lemma statusPaired_success_iff:
  "\<not> nullish env \<Longrightarrow>
   statusPaired \<lparr>content = c, pageStatusCode = propOf env (lit ''pageStatusCode''),
                  pageError = propOf env (lit ''pageError'')\<rparr> = bodyPaired env"
  by (simp add: bodyPaired_def statusPaired_def optProp_def)

text \<open>
  C6. In both scrapers a rejected request whose error has the code \<open>ECONNABORTED\<close>
  (a timeout) gives empty content, no status and the error \<open>Request timed out\<close>; any
  other error gives empty content, no status and the error's description
  \<open>error.message || error\<close>. The thrown value is an error object, so it is neither
  \<open>null\<close> nor \<open>undefined\<close>.
\<close>

theorem transport_error_result:
  assumes "\<not> nullish error"
  shows "(axios_get u T = Inl error \<longrightarrow>
     returned (scrapeWithFetch axios_get T u) =
       Some \<lparr>content = JString [], pageStatusCode = JNull,
             pageError = (if propOf error (lit ''code'') = JString (lit ''ECONNABORTED'')
                          then JString (lit ''Request timed out'')
                          else js_or (propOf error (lit ''message'')) error)\<rparr>) \<and>
    (generateRequestParams u = Inr reqParams \<and> waitParamOf reqParams waitFor = Inr waitParam \<and>
     axios_post (playwrightRequest ep T u waitParam hdrs) = Inl error \<longrightarrow>
     returned (scrapeWithPlaywright generateRequestParams axios_post JSON_parse ep T u waitFor hdrs) =
       Some \<lparr>content = JString [], pageStatusCode = JNull,
             pageError = (if propOf error (lit ''code'') = JString (lit ''ECONNABORTED'')
                          then JString (lit ''Request timed out'')
                          else js_or (propOf error (lit ''message'')) error)\<rparr>)"
  using assms
  by (simp add: scrapeWithFetch_def scrapeWithPlaywright_def returned_def Let_def catchError_ok)

theorem transport_error_result_witness:
  "returned (scrapeWithFetch
     (\<lambda>u t. Inl (JObject [(lit ''code'', JString (lit ''ECONNABORTED'')),
                          (lit ''message'', JString (lit ''timeout of 15000ms exceeded''))]))
     15000 (lit ''http://example.com/slow''))
   = Some \<lparr>content = JString [], pageStatusCode = JNull,
           pageError = JString (lit ''Request timed out'')\<rparr>
   \<and>
   returned (scrapeWithPlaywright
     (\<lambda>u. Inr (JObject []))
     (\<lambda>req. Inl (JObject [(lit ''code'', JString (lit ''ECONNREFUSED'')),
                          (lit ''message'', JString (lit ''connect ECONNREFUSED''))]))
     (\<lambda>t. Inr (JObject []))
     (JString (lit ''http://localhost:3000/scrape'')) 15000 (lit ''http://example.com/'') 0 JUndefined)
   = Some \<lparr>content = JString [], pageStatusCode = JNull,
           pageError = JString (lit ''connect ECONNREFUSED'')\<rparr>"
proof -
  let ?timeout = "JObject [(lit ''code'', JString (lit ''ECONNABORTED'')),
                          (lit ''message'', JString (lit ''timeout of 15000ms exceeded''))]"
  let ?refused = "JObject [(lit ''code'', JString (lit ''ECONNREFUSED'')),
                          (lit ''message'', JString (lit ''connect ECONNREFUSED''))]"
  have n1: "\<not> nullish ?timeout" and n2: "\<not> nullish ?refused" by simp_all
  have w: "waitParamOf (JObject []) 0 = Inr (JNumber 0)" by code_simp
  have c1: "propOf ?timeout (lit ''code'') = JString (lit ''ECONNABORTED'')" by code_simp
  have c2: "propOf ?refused (lit ''code'') \<noteq> JString (lit ''ECONNABORTED'')" by code_simp
  have m2: "js_or (propOf ?refused (lit ''message'')) ?refused = JString (lit ''connect ECONNREFUSED'')"
    by code_simp
  from transport_error_result [OF n1, where axios_get = "\<lambda>u t. Inl ?timeout" and u = "lit ''http://example.com/slow''"
      and T = 15000] c1
  have a: "returned (scrapeWithFetch (\<lambda>u t. Inl ?timeout) 15000 (lit ''http://example.com/slow''))
     = Some \<lparr>content = JString [], pageStatusCode = JNull,
           pageError = JString (lit ''Request timed out'')\<rparr>"
    by simp
  from transport_error_result [OF n2, where generateRequestParams = "\<lambda>u. Inr (JObject [])"
      and u = "lit ''http://example.com/''" and reqParams = "JObject []" and waitFor = 0
      and waitParam = "JNumber 0" and axios_post = "\<lambda>req. Inl ?refused"
      and JSON_parse = "\<lambda>t. Inr (JObject [])"
      and ep = "JString (lit ''http://localhost:3000/scrape'')" and T = 15000 and hdrs = JUndefined]
    w c2 m2
  have b: "returned (scrapeWithPlaywright (\<lambda>u. Inr (JObject [])) (\<lambda>req. Inl ?refused)
     (\<lambda>t. Inr (JObject []))
     (JString (lit ''http://localhost:3000/scrape'')) 15000 (lit ''http://example.com/'') 0 JUndefined)
   = Some \<lparr>content = JString [], pageStatusCode = JNull,
           pageError = JString (lit ''connect ECONNREFUSED'')\<rparr>"
    by simp
  from a b show ?thesis by blast
qed

text \<open>
  C2. A GET answered with the status 404 does not reach the status check of
  \<open>scrapeWithFetch\<close>: axios rejects every status outside the 2xx range, and the
  \<open>catch\<close> block returns empty content, no status and the message of the rejection,
  where the claim has the status 404 and the reason phrase \<open>Not Found\<close>.
\<close>

theorem scrapeWithFetch_404_rejected:
  "returned (scrapeWithFetch
     (axiosGet (\<lambda>u t. Inr \<lparr>http_status = 404, reason_phrase = lit ''Not Found'',
                           body = lit ''<html>missing</html>''\<rparr>))
     15000 (lit ''http://example.com/missing''))
   = Some \<lparr>content = JString [], pageStatusCode = JNull,
           pageError = JString (lit ''Request failed with status code 404'')\<rparr>"
  by code_simp

text \<open>
  C5. On every exit path other than the success path the content returned is the empty
  string. In \<open>scrapeWithFetch\<close>: a rejected request (timeout or transport error),
  a response of another status than 200, a body classified as PDF, and, with axios as
  client, an answer of any status other than 200. In \<open>scrapeWithPlaywright\<close>: a
  value thrown before the response is there (provider, timeout, transport error), a
  response of another status than 200, a body that does not parse, an envelope whose
  content is classified as PDF, and, with axios as client, an answer of any status
  other than 200. And in general: a result returned when the inputs are not those of
  the success path (status 200, and a body, or the content of a parsed envelope other
  than \<open>null\<close>, that is not classified as PDF) has empty content.
\<close>

theorem failure_content_empty:
  "(g u T = Inl e \<and> \<not> nullish e \<longrightarrow>
      map_option content (returned (scrapeWithFetch g T u)) = Some (JString [])) \<and>
   (g u T = Inr resp \<and> status resp \<noteq> 200 \<longrightarrow>
      map_option content (returned (scrapeWithFetch g T u)) = Some (JString [])) \<and>
   (g u T = Inr resp \<and> status resp = 200 \<and> isPDFContent (data resp) \<longrightarrow>
      map_option content (returned (scrapeWithFetch g T u)) = Some (JString [])) \<and>
   (http u T = Inr a \<and> http_status a \<noteq> 200 \<longrightarrow>
      map_option content (returned (scrapeWithFetch (axiosGet http) T u)) = Some (JString []))
          \<and>
   (requestOutcome gen post ep T u waitFor hdrs = Inl e \<and> \<not> nullish e \<longrightarrow>
      map_option content (returned (scrapeWithPlaywright gen post parse ep T u waitFor hdrs))
        = Some (JString [])) \<and>
   (requestOutcome gen post ep T u waitFor hdrs = Inr resp \<and> status resp \<noteq> 200
       \<longrightarrow>
      map_option content (returned (scrapeWithPlaywright gen post parse ep T u waitFor hdrs))
        = Some (JString [])) \<and>
   (requestOutcome gen post ep T u waitFor hdrs = Inr resp \<and> status resp = 200 \<and>
    parse (data resp) = Inl e \<longrightarrow>
      map_option content (returned (scrapeWithPlaywright gen post parse ep T u waitFor hdrs))
        = Some (JString [])) \<and>
   (requestOutcome gen post ep T u waitFor hdrs = Inr resp \<and> status resp = 200 \<and>
    parse (data resp) = Inr env \<and> isPDFContent (propOf env (lit ''content'')) \<longrightarrow>
      map_option content (returned (scrapeWithPlaywright gen post parse ep T u waitFor hdrs))
        = Some (JString [])) \<and>
   (gen u = Inr reqParams \<and> waitParamOf reqParams waitFor = Inr waitParam \<and>
    httpPost (playwrightRequest ep T u waitParam hdrs) = Inr a \<and> http_status a \<noteq> 200
        \<longrightarrow>
      map_option content
        (returned (scrapeWithPlaywright gen (axiosPost httpPost) parse ep T u waitFor hdrs))
        = Some (JString [])) \<and>
   (returned (scrapeWithFetch g T u) = Some r \<and>
    \<not> (\<exists>resp. g u T = Inr resp \<and> status resp = 200 \<and> \<not> isPDFContent
        (data resp)) \<longrightarrow>
      content r = JString []) \<and>
   (returned (scrapeWithPlaywright gen post parse ep T u waitFor hdrs) = Some r' \<and>
    \<not> (\<exists>resp env. requestOutcome gen post ep T u waitFor hdrs = Inr resp \<and>
          status resp = 200 \<and> parse (data resp) = Inr env \<and> \<not> nullish env \<and>
          \<not> isPDFContent (propOf env (lit ''content''))) \<longrightarrow>
      content r' = JString [])"
proof (intro conjI impI; (elim conjE)?)
  assume "g u T = Inl e" "\<not> nullish e"
  then show "map_option content (returned (scrapeWithFetch g T u)) = Some (JString [])"
    by (rule fetch_rejected_content)
next
  assume "g u T = Inr resp" "status resp \<noteq> 200"
  then show "map_option content (returned (scrapeWithFetch g T u)) = Some (JString [])"
    by (rule fetch_non200_content)
next
  assume "g u T = Inr resp" "status resp = 200" "isPDFContent (data resp)"
  then show "map_option content (returned (scrapeWithFetch g T u)) = Some (JString [])"
    by (rule fetch_pdf_content)
next
  assume "http u T = Inr a" "http_status a \<noteq> 200"
  then show "map_option content (returned (scrapeWithFetch (axiosGet http) T u))
      = Some (JString [])"
    by (rule fetch_axios_status_content)
next
  assume "requestOutcome gen post ep T u waitFor hdrs = Inl e" "\<not> nullish e"
  then show "map_option content
      (returned (scrapeWithPlaywright gen post parse ep T u waitFor hdrs)) = Some (JString [])"
    by (rule playwright_rejected_content)
next
  assume "requestOutcome gen post ep T u waitFor hdrs = Inr resp" "status resp \<noteq> 200"
  then show "map_option content
      (returned (scrapeWithPlaywright gen post parse ep T u waitFor hdrs)) = Some (JString [])"
    by (rule playwright_non200_content)
next
  assume "requestOutcome gen post ep T u waitFor hdrs = Inr resp" "status resp = 200"
    "parse (data resp) = Inl e"
  then show "map_option content
      (returned (scrapeWithPlaywright gen post parse ep T u waitFor hdrs)) = Some (JString [])"
    by (rule playwright_parse_error_content)
next
  assume "requestOutcome gen post ep T u waitFor hdrs = Inr resp" "status resp = 200"
    "parse (data resp) = Inr env" "isPDFContent (propOf env (lit ''content''))"
  then show "map_option content
      (returned (scrapeWithPlaywright gen post parse ep T u waitFor hdrs)) = Some (JString [])"
    by (rule playwright_pdf_content)
next
  assume "gen u = Inr reqParams" "waitParamOf reqParams waitFor = Inr waitParam"
    "httpPost (playwrightRequest ep T u waitParam hdrs) = Inr a" "http_status a \<noteq> 200"
  then show "map_option content
      (returned (scrapeWithPlaywright gen (axiosPost httpPost) parse ep T u waitFor hdrs))
      = Some (JString [])"
    by (rule playwright_axios_status_content)
next
  assume "returned (scrapeWithFetch g T u) = Some r"
    "\<not> (\<exists>resp. g u T = Inr resp \<and> status resp = 200 \<and> \<not> isPDFContent
        (data resp))"
  then show "content r = JString []" by (rule fetch_exhaustive_content)
next
  assume "returned (scrapeWithPlaywright gen post parse ep T u waitFor hdrs) = Some r'"
    "\<not> (\<exists>resp env. requestOutcome gen post ep T u waitFor hdrs = Inr resp \<and>
          status resp = 200 \<and> parse (data resp) = Inr env \<and> \<not> nullish env \<and>
          \<not> isPDFContent (propOf env (lit ''content'')))"
  then show "content r' = JString []" by (rule playwright_exhaustive_content)
qed

theorem failure_content_empty_witness:
  "(map_option content (returned (scrapeWithFetch (\<lambda>u t. Inl (JObject [(lit ''code'',
      JString (lit ''ECONNABORTED'')), (lit ''message'', JString (lit
      ''timeout of 15000ms exceeded''))])) 15000 (lit ''http://example.com/''))) = Some (JString
      [])) \<and>
   (map_option content (returned (scrapeWithFetch (\<lambda>u t. Inr \<lparr>status = 204,
       statusText = lit ''No Content'', data = JString []\<rparr>) 15000 (lit
       ''http://example.com/''))) = Some (JString [])) \<and>
   (map_option content (returned (scrapeWithFetch (\<lambda>u t. Inr \<lparr>status = 200,
       statusText = lit ''OK'', data = JString (lit ''%PDF-1.4 binary'')\<rparr>) 15000 (lit
       ''http://example.com/''))) = Some (JString [])) \<and>
   (map_option content (returned (scrapeWithFetch (axiosGet (\<lambda>u t. Inr \<lparr>http_status =
       404, reason_phrase = lit ''Not Found'', body = lit ''<html>missing</html>''\<rparr>)) 15000
       (lit ''http://example.com/''))) = Some (JString [])) \<and>
   (map_option content (returned (scrapeWithPlaywright (\<lambda>u. Inr (JObject [])) (\<lambda>req.
       Inl (JObject [(lit ''code'', JString (lit ''ECONNABORTED'')), (lit ''message'', JString (lit
       ''timeout of 15000ms exceeded''))])) (\<lambda>t. Inr (JObject [])) (JString (lit
       ''http://localhost:3000/scrape'')) 15000 (lit ''http://example.com/'') 0 JUndefined)) = Some
       (JString [])) \<and>
   (map_option content (returned (scrapeWithPlaywright (\<lambda>u. Inr (JObject [])) (\<lambda>req.
       Inr \<lparr>status = 202, statusText = lit ''Accepted'', data = JString (lit ''{}'')\<rparr>)
       (\<lambda>t. Inr (JObject [])) (JString (lit ''http://localhost:3000/scrape'')) 15000 (lit
       ''http://example.com/'') 0 JUndefined)) = Some (JString [])) \<and>
   (map_option content (returned (scrapeWithPlaywright (\<lambda>u. Inr (JObject [])) (\<lambda>req.
       Inr \<lparr>status = 200, statusText = lit ''OK'', data = JString (lit ''<html>'')\<rparr>)
       (\<lambda>t. Inl (JObject [(lit ''message'', JString (lit ''Unexpected token <''))]))
       (JString (lit ''http://localhost:3000/scrape'')) 15000 (lit ''http://example.com/'') 0
       JUndefined)) = Some (JString [])) \<and>
   (map_option content (returned (scrapeWithPlaywright (\<lambda>u. Inr (JObject [])) (\<lambda>req.
       Inr \<lparr>status = 200, statusText = lit ''OK'',
       data = JString (lit ''{\"content\":\"%PDF-1.4 binary\",\"pageStatusCode\":200}'')\<rparr>)
       (\<lambda>t. Inr (JObject [(lit ''content'', JString (lit ''%PDF-1.4 binary'')), (lit
       ''pageStatusCode'', JNumber 200)])) (JString (lit ''http://localhost:3000/scrape'')) 15000
       (lit ''http://example.com/'') 0 JUndefined)) = Some (JString [])) \<and>
   (map_option content (returned (scrapeWithPlaywright (\<lambda>u. Inr (JObject [])) (axiosPost
       (\<lambda>req. Inr \<lparr>http_status = 500, reason_phrase = lit ''Internal Server Error'',
       body = lit ''oops''\<rparr>)) (\<lambda>t. Inr (JObject [])) (JString (lit
       ''http://localhost:3000/scrape'')) 15000 (lit ''http://example.com/'') 0 JUndefined)) = Some
       (JString [])) \<and>
   (returned (scrapeWithFetch (\<lambda>u t. Inr \<lparr>status = 200, statusText = lit ''OK'', data
       = JString (lit ''%PDF-1.4 binary'')\<rparr>) 15000 (lit ''http://example.com/'')) = Some
       \<lparr>content = JString [], pageStatusCode = JNumber 200, pageError = JString
       pdfMessage\<rparr> \<and> content \<lparr>content = JString [], pageStatusCode = JNumber 200,
       pageError = JString pdfMessage\<rparr> = JString []) \<and>
   (returned (scrapeWithPlaywright (\<lambda>u. Inr (JObject [])) (\<lambda>req. Inr \<lparr>status
       = 200, statusText = lit ''OK'', data = JString (lit ''<html>'')\<rparr>) (\<lambda>t. Inl
       (JObject [(lit ''message'', JString (lit ''Unexpected token <''))])) (JString (lit
       ''http://localhost:3000/scrape'')) 15000 (lit ''http://example.com/'') 0 JUndefined) = Some
       \<lparr>content = JString [], pageStatusCode = JNull, pageError = JString (lit
       ''Unexpected token <'')\<rparr> \<and> content \<lparr>content = JString [], pageStatusCode =
       JNull, pageError = JString (lit ''Unexpected token <'')\<rparr> = JString [])"
proof -
  from failure_content_empty [where g = "\<lambda>u t. Inl (JObject [(lit ''code'', JString (lit
      ''ECONNABORTED'')), (lit ''message'', JString (lit ''timeout of 15000ms exceeded''))])" and e
      = "JObject [(lit ''code'', JString (lit ''ECONNABORTED'')), (lit ''message'', JString (lit
      ''timeout of 15000ms exceeded''))]" and u = "lit ''http://example.com/''" and T = 15000, THEN
      conjunct1] 
  have c0: "map_option content (returned (scrapeWithFetch (\<lambda>u t. Inl (JObject [(lit
      ''code'', JString (lit ''ECONNABORTED'')), (lit ''message'', JString (lit
      ''timeout of 15000ms exceeded''))])) 15000 (lit ''http://example.com/''))) = Some (JString
      [])"
    by simp
  from failure_content_empty [where g = "\<lambda>u t. Inr \<lparr>status = 204, statusText = lit
      ''No Content'', data = JString []\<rparr>" and resp = "\<lparr>status = 204, statusText = lit
      ''No Content'', data = JString []\<rparr>" and u = "lit ''http://example.com/''" and T =
      15000, THEN conjunct2, THEN conjunct1] 
  have c1: "map_option content (returned (scrapeWithFetch (\<lambda>u t. Inr \<lparr>status = 204,
      statusText = lit ''No Content'', data = JString []\<rparr>) 15000 (lit
      ''http://example.com/''))) = Some (JString [])"
    by simp
  have h2_0: "isPDFContent (JString (lit ''%PDF-1.4 binary''))"
    by code_simp
  from failure_content_empty [where g = "\<lambda>u t. Inr \<lparr>status = 200, statusText = lit
      ''OK'', data = JString (lit ''%PDF-1.4 binary'')\<rparr>" and resp = "\<lparr>status = 200,
      statusText = lit ''OK'', data = JString (lit ''%PDF-1.4 binary'')\<rparr>" and u = "lit
      ''http://example.com/''" and T = 15000, THEN conjunct2, THEN conjunct2, THEN conjunct1] h2_0
  have c2: "map_option content (returned (scrapeWithFetch (\<lambda>u t. Inr \<lparr>status = 200,
      statusText = lit ''OK'', data = JString (lit ''%PDF-1.4 binary'')\<rparr>) 15000 (lit
      ''http://example.com/''))) = Some (JString [])"
    by simp
  from failure_content_empty [where http = "\<lambda>u t. Inr \<lparr>http_status = 404,
      reason_phrase = lit ''Not Found'', body = lit ''<html>missing</html>''\<rparr>" and a =
      "\<lparr>http_status = 404, reason_phrase = lit ''Not Found'', body = lit
      ''<html>missing</html>''\<rparr>" and u = "lit ''http://example.com/''" and T = 15000, THEN
      conjunct2, THEN conjunct2, THEN conjunct2, THEN conjunct1] 
  have c3: "map_option content (returned (scrapeWithFetch (axiosGet (\<lambda>u t. Inr
      \<lparr>http_status = 404, reason_phrase = lit ''Not Found'', body = lit
      ''<html>missing</html>''\<rparr>)) 15000 (lit ''http://example.com/''))) = Some (JString [])"
    by simp
  have h4_0: "requestOutcome (\<lambda>u. Inr (JObject [])) (\<lambda>req. Inl (JObject [(lit
      ''code'', JString (lit ''ECONNABORTED'')), (lit ''message'', JString (lit
      ''timeout of 15000ms exceeded''))])) (JString (lit ''http://localhost:3000/scrape'')) 15000
      (lit ''http://example.com/'') 0 JUndefined = Inl (JObject [(lit ''code'', JString (lit
      ''ECONNABORTED'')), (lit ''message'', JString (lit ''timeout of 15000ms exceeded''))])"
    by code_simp
  from failure_content_empty [where gen = "\<lambda>u. Inr (JObject [])" and post = "\<lambda>req.
      Inl (JObject [(lit ''code'', JString (lit ''ECONNABORTED'')), (lit ''message'', JString (lit
      ''timeout of 15000ms exceeded''))])" and parse = "\<lambda>t. Inr (JObject [])" and e =
      "JObject [(lit ''code'', JString (lit ''ECONNABORTED'')), (lit ''message'', JString (lit
      ''timeout of 15000ms exceeded''))]" and u = "lit ''http://example.com/''" and T = 15000 and ep
      = "JString (lit ''http://localhost:3000/scrape'')" and waitFor = 0 and hdrs = JUndefined, THEN
      conjunct2, THEN conjunct2, THEN conjunct2, THEN conjunct2, THEN conjunct1] h4_0
  have c4: "map_option content (returned (scrapeWithPlaywright (\<lambda>u. Inr (JObject []))
      (\<lambda>req. Inl (JObject [(lit ''code'', JString (lit ''ECONNABORTED'')), (lit ''message'',
      JString (lit ''timeout of 15000ms exceeded''))])) (\<lambda>t. Inr (JObject [])) (JString (lit
      ''http://localhost:3000/scrape'')) 15000 (lit ''http://example.com/'') 0 JUndefined)) = Some
      (JString [])"
    by simp
  have h5_0: "requestOutcome (\<lambda>u. Inr (JObject [])) (\<lambda>req. Inr \<lparr>status = 202,
      statusText = lit ''Accepted'', data = JString (lit ''{}'')\<rparr>) (JString (lit
      ''http://localhost:3000/scrape'')) 15000 (lit ''http://example.com/'') 0 JUndefined = Inr
      \<lparr>status = 202, statusText = lit ''Accepted'', data = JString (lit ''{}'')\<rparr>"
    by code_simp
  from failure_content_empty [where gen = "\<lambda>u. Inr (JObject [])" and post = "\<lambda>req.
      Inr \<lparr>status = 202, statusText = lit ''Accepted'', data = JString (lit ''{}'')\<rparr>"
      and parse = "\<lambda>t. Inr (JObject [])" and resp = "\<lparr>status = 202, statusText = lit
      ''Accepted'', data = JString (lit ''{}'')\<rparr>" and u = "lit ''http://example.com/''" and T
      = 15000 and ep = "JString (lit ''http://localhost:3000/scrape'')" and waitFor = 0 and hdrs =
      JUndefined, THEN conjunct2, THEN conjunct2, THEN conjunct2, THEN conjunct2, THEN conjunct2,
      THEN conjunct1] h5_0
  have c5: "map_option content (returned (scrapeWithPlaywright (\<lambda>u. Inr (JObject []))
      (\<lambda>req. Inr \<lparr>status = 202, statusText = lit ''Accepted'', data = JString (lit
      ''{}'')\<rparr>) (\<lambda>t. Inr (JObject [])) (JString (lit
      ''http://localhost:3000/scrape'')) 15000 (lit ''http://example.com/'') 0 JUndefined)) = Some
      (JString [])"
    by simp
  have h6_0: "requestOutcome (\<lambda>u. Inr (JObject [])) (\<lambda>req. Inr \<lparr>status = 200,
      statusText = lit ''OK'', data = JString (lit ''<html>'')\<rparr>) (JString (lit
      ''http://localhost:3000/scrape'')) 15000 (lit ''http://example.com/'') 0 JUndefined = Inr
      \<lparr>status = 200, statusText = lit ''OK'', data = JString (lit ''<html>'')\<rparr>"
    by code_simp
  from failure_content_empty [where gen = "\<lambda>u. Inr (JObject [])" and post = "\<lambda>req.
      Inr \<lparr>status = 200, statusText = lit ''OK'', data = JString (lit ''<html>'')\<rparr>"
      and parse = "\<lambda>t. Inl (JObject [(lit ''message'', JString (lit
      ''Unexpected token <''))])" and resp = "\<lparr>status = 200, statusText = lit ''OK'', data =
      JString (lit ''<html>'')\<rparr>" and e = "JObject [(lit ''message'', JString (lit
      ''Unexpected token <''))]" and u = "lit ''http://example.com/''" and T = 15000 and ep =
      "JString (lit ''http://localhost:3000/scrape'')" and waitFor = 0 and hdrs = JUndefined, THEN
      conjunct2, THEN conjunct2, THEN conjunct2, THEN conjunct2, THEN conjunct2, THEN conjunct2,
      THEN conjunct1] h6_0
  have c6: "map_option content (returned (scrapeWithPlaywright (\<lambda>u. Inr (JObject []))
      (\<lambda>req. Inr \<lparr>status = 200, statusText = lit ''OK'', data = JString (lit
      ''<html>'')\<rparr>) (\<lambda>t. Inl (JObject [(lit ''message'', JString (lit
      ''Unexpected token <''))])) (JString (lit ''http://localhost:3000/scrape'')) 15000 (lit
      ''http://example.com/'') 0 JUndefined)) = Some (JString [])"
    by simp
  have h7_0: "requestOutcome (\<lambda>u. Inr (JObject [])) (\<lambda>req. Inr \<lparr>status = 200, statusText = lit ''OK'',
       data = JString (lit ''{\"content\":\"%PDF-1.4 binary\",\"pageStatusCode\":200}'')\<rparr>) (JString (lit
      ''http://localhost:3000/scrape'')) 15000 (lit ''http://example.com/'') 0 JUndefined = Inr
      \<lparr>status = 200, statusText = lit ''OK'',
       data = JString (lit ''{\"content\":\"%PDF-1.4 binary\",\"pageStatusCode\":200}'')\<rparr>"
    by code_simp
  have h7_1: "isPDFContent (propOf (JObject [(lit ''content'', JString (lit ''%PDF-1.4 binary'')),
      (lit ''pageStatusCode'', JNumber 200)]) (lit ''content''))"
    by code_simp
  from failure_content_empty [where gen = "\<lambda>u. Inr (JObject [])" and post = "\<lambda>req.
      Inr \<lparr>status = 200, statusText = lit ''OK'',
       data = JString (lit ''{\"content\":\"%PDF-1.4 binary\",\"pageStatusCode\":200}'')\<rparr>" and
      parse = "\<lambda>t. Inr (JObject [(lit ''content'', JString (lit ''%PDF-1.4 binary'')), (lit
      ''pageStatusCode'', JNumber 200)])" and resp = "\<lparr>status = 200, statusText = lit ''OK'',
       data = JString (lit ''{\"content\":\"%PDF-1.4 binary\",\"pageStatusCode\":200}'')\<rparr>" and env = "JObject [(lit ''content'', JString (lit
      ''%PDF-1.4 binary'')), (lit ''pageStatusCode'', JNumber 200)]" and u = "lit
      ''http://example.com/''" and T = 15000 and ep = "JString (lit
      ''http://localhost:3000/scrape'')" and waitFor = 0 and hdrs = JUndefined, THEN conjunct2, THEN
      conjunct2, THEN conjunct2, THEN conjunct2, THEN conjunct2, THEN conjunct2, THEN conjunct2,
      THEN conjunct1] h7_0 h7_1
  have c7: "map_option content (returned (scrapeWithPlaywright (\<lambda>u. Inr (JObject []))
      (\<lambda>req. Inr \<lparr>status = 200, statusText = lit ''OK'',
       data = JString (lit ''{\"content\":\"%PDF-1.4 binary\",\"pageStatusCode\":200}'')\<rparr>) (\<lambda>t. Inr (JObject [(lit ''content'', JString (lit
      ''%PDF-1.4 binary'')), (lit ''pageStatusCode'', JNumber 200)])) (JString (lit
      ''http://localhost:3000/scrape'')) 15000 (lit ''http://example.com/'') 0 JUndefined)) = Some
      (JString [])"
    by simp
  have h8_0: "waitParamOf (JObject []) 0 = Inr (JNumber 0)"
    by code_simp
  from failure_content_empty [where gen = "\<lambda>u. Inr (JObject [])" and httpPost =
      "\<lambda>req. Inr \<lparr>http_status = 500, reason_phrase = lit ''Internal Server Error'',
      body = lit ''oops''\<rparr>" and parse = "\<lambda>t. Inr (JObject [])" and a =
      "\<lparr>http_status = 500, reason_phrase = lit ''Internal Server Error'', body = lit
      ''oops''\<rparr>" and reqParams = "JObject []" and waitParam = "JNumber 0" and u = "lit
      ''http://example.com/''" and T = 15000 and ep = "JString (lit
      ''http://localhost:3000/scrape'')" and waitFor = 0 and hdrs = JUndefined, THEN conjunct2, THEN
      conjunct2, THEN conjunct2, THEN conjunct2, THEN conjunct2, THEN conjunct2, THEN conjunct2,
      THEN conjunct2, THEN conjunct1] h8_0
  have c8: "map_option content (returned (scrapeWithPlaywright (\<lambda>u. Inr (JObject []))
      (axiosPost (\<lambda>req. Inr \<lparr>http_status = 500, reason_phrase = lit
      ''Internal Server Error'', body = lit ''oops''\<rparr>)) (\<lambda>t. Inr (JObject []))
      (JString (lit ''http://localhost:3000/scrape'')) 15000 (lit ''http://example.com/'') 0
      JUndefined)) = Some (JString [])"
    by simp
  have h9_0: "isPDFContent (JString (lit ''%PDF-1.4 binary''))"
    by code_simp
  have h9_1: "returned (scrapeWithFetch (\<lambda>u t. Inr \<lparr>status = 200, statusText = lit
      ''OK'', data = JString (lit ''%PDF-1.4 binary'')\<rparr>) 15000 (lit ''http://example.com/''))
      = Some \<lparr>content = JString [], pageStatusCode = JNumber 200, pageError = JString
      pdfMessage\<rparr>"
    by code_simp
  from failure_content_empty [where g = "\<lambda>u t. Inr \<lparr>status = 200, statusText = lit
      ''OK'', data = JString (lit ''%PDF-1.4 binary'')\<rparr>" and r = "\<lparr>content = JString
      [], pageStatusCode = JNumber 200, pageError = JString pdfMessage\<rparr>" and u = "lit
      ''http://example.com/''" and T = 15000, THEN conjunct2, THEN conjunct2, THEN conjunct2, THEN
      conjunct2, THEN conjunct2, THEN conjunct2, THEN conjunct2, THEN conjunct2, THEN conjunct2,
      THEN conjunct1] h9_0 h9_1
  have c9: "returned (scrapeWithFetch (\<lambda>u t. Inr \<lparr>status = 200, statusText = lit
      ''OK'', data = JString (lit ''%PDF-1.4 binary'')\<rparr>) 15000 (lit ''http://example.com/''))
      = Some \<lparr>content = JString [], pageStatusCode = JNumber 200, pageError = JString
      pdfMessage\<rparr> \<and> content \<lparr>content = JString [], pageStatusCode = JNumber 200,
      pageError = JString pdfMessage\<rparr> = JString []"
    by simp
  have h10_0: "returned (scrapeWithPlaywright (\<lambda>u. Inr (JObject [])) (\<lambda>req. Inr
      \<lparr>status = 200, statusText = lit ''OK'', data = JString (lit ''<html>'')\<rparr>)
      (\<lambda>t. Inl (JObject [(lit ''message'', JString (lit ''Unexpected token <''))])) (JString
      (lit ''http://localhost:3000/scrape'')) 15000 (lit ''http://example.com/'') 0 JUndefined) =
      Some \<lparr>content = JString [], pageStatusCode = JNull, pageError = JString (lit
      ''Unexpected token <'')\<rparr>"
    by code_simp
  from failure_content_empty [where gen = "\<lambda>u. Inr (JObject [])" and post = "\<lambda>req.
      Inr \<lparr>status = 200, statusText = lit ''OK'', data = JString (lit ''<html>'')\<rparr>"
      and parse = "\<lambda>t. Inl (JObject [(lit ''message'', JString (lit
      ''Unexpected token <''))])" and r' = "\<lparr>content = JString [], pageStatusCode = JNull,
      pageError = JString (lit ''Unexpected token <'')\<rparr>" and u = "lit
      ''http://example.com/''" and T = 15000 and ep = "JString (lit
      ''http://localhost:3000/scrape'')" and waitFor = 0 and hdrs = JUndefined, THEN conjunct2, THEN
      conjunct2, THEN conjunct2, THEN conjunct2, THEN conjunct2, THEN conjunct2, THEN conjunct2,
      THEN conjunct2, THEN conjunct2, THEN conjunct2] h10_0
  have c10: "returned (scrapeWithPlaywright (\<lambda>u. Inr (JObject [])) (\<lambda>req. Inr
      \<lparr>status = 200, statusText = lit ''OK'', data = JString (lit ''<html>'')\<rparr>)
      (\<lambda>t. Inl (JObject [(lit ''message'', JString (lit ''Unexpected token <''))])) (JString
      (lit ''http://localhost:3000/scrape'')) 15000 (lit ''http://example.com/'') 0 JUndefined) =
      Some \<lparr>content = JString [], pageStatusCode = JNull, pageError = JString (lit
      ''Unexpected token <'')\<rparr> \<and> content \<lparr>content = JString [], pageStatusCode =
      JNull, pageError = JString (lit ''Unexpected token <'')\<rparr> = JString []"
    by simp
  from c0 c1 c2 c3 c4 c5 c6 c7 c8 c9 c10 show ?thesis by blast
qed

text \<open>
  C10, as the code has it. The POST resolves with status 200 and the body parses to an
  envelope whose \<open>content\<close> is \<open>null\<close> or missing. When the envelope is not
  the JSON value \<open>null\<close>, the call takes the success path: the content returned is
  the empty string, status and error are the envelope's, and \<open>success\<close> is set.
  When the envelope is \<open>null\<close>, reading its \<open>content\<close> throws and the call
  returns the failure of the inner \<open>catch\<close>: empty content, no status, and the
  message of the \<open>TypeError\<close>.
\<close>

theorem playwright_missing_content:
  assumes "generateRequestParams u = Inr reqParams"
    and "waitParamOf reqParams waitFor = Inr waitParam"
    and "axios_post (playwrightRequest ep T u waitParam hdrs) = Inr response"
    and "status response = 200"
    and "JSON_parse (data response) = Inr envelope"
    and "nullish (propOf envelope (lit ''content''))"
  shows "(\<not> nullish envelope \<longrightarrow>
      scrapeWithPlaywright generateRequestParams axios_post JSON_parse ep T u waitFor hdrs =
        Inr (\<lparr>content = JString [],
               pageStatusCode = propOf envelope (lit ''pageStatusCode''),
               pageError = propOf envelope (lit ''pageError'')\<rparr>,
             (initLogParams u (lit ''playwright''))
               \<lparr>success := True, html := propOf envelope (lit ''content''),
                response_code := propOf envelope (lit ''pageStatusCode''),
                error_message := propOf envelope (lit ''pageError'')\<rparr>)) \<and>
     (nullish envelope \<longrightarrow>
      scrapeWithPlaywright generateRequestParams axios_post JSON_parse ep T u waitFor hdrs =
        Inr (\<lparr>content = JString [], pageStatusCode = JNull,
               pageError = propOf (typeError envelope (lit ''content'')) (lit ''message'')\<rparr>,
             (initLogParams u (lit ''playwright''))
               \<lparr>error_message := propOf (typeError envelope (lit ''content'')) (lit
                   ''message'')\<rparr>))"
proof -
  have ro: "requestOutcome generateRequestParams axios_post ep T u waitFor hdrs = Inr response"
    using assms(1-3) by (simp add: requestOutcome_def)
  have m: "js_or (propOf (typeError envelope (lit ''content'')) (lit ''message''))
             (typeError envelope (lit ''content''))
           = propOf (typeError envelope (lit ''content'')) (lit ''message'')"
    by (simp add: typeError_def js_or_def lit_def)
  show ?thesis
  proof (intro conjI impI)
    assume n: "\<not> nullish envelope"
    from assms(6) have "\<not> isPDFContent (propOf envelope (lit ''content''))"
      by (rule isPDFContent_nullish)
    with ro assms(4,5,6) n show "scrapeWithPlaywright generateRequestParams axios_post JSON_parse ep
        T u waitFor hdrs =
        Inr (\<lparr>content = JString [],
               pageStatusCode = propOf envelope (lit ''pageStatusCode''),
               pageError = propOf envelope (lit ''pageError'')\<rparr>,
             (initLogParams u (lit ''playwright''))
               \<lparr>success := True, html := propOf envelope (lit ''content''),
                response_code := propOf envelope (lit ''pageStatusCode''),
                error_message := propOf envelope (lit ''pageError'')\<rparr>)"
      by (simp add: playwright_via_requestOutcome handleResponse_success js_coalesce_def)
  next
    assume n: "nullish envelope"
    with ro assms(4,5) m show "scrapeWithPlaywright generateRequestParams axios_post JSON_parse ep T
        u waitFor hdrs =
        Inr (\<lparr>content = JString [], pageStatusCode = JNull,
               pageError = propOf (typeError envelope (lit ''content'')) (lit ''message'')\<rparr>,
             (initLogParams u (lit ''playwright''))
               \<lparr>error_message := propOf (typeError envelope (lit ''content'')) (lit
                   ''message'')\<rparr>)"
      by (simp add: playwright_via_requestOutcome handleResponse_null_envelope
          catchJsonError_ok typeError_not_nullish)
  qed
qed

theorem playwright_missing_content_witness:
  "scrapeWithPlaywright
     (\<lambda>u. Inr (JObject []))
     (\<lambda>req. Inr \<lparr>status = 200, statusText = lit ''OK'',
                  data = JString (lit ''{\"content\":null,\"pageStatusCode\":204}'')\<rparr>)
     (\<lambda>t. Inr (JObject [(lit ''content'', JNull), (lit ''pageStatusCode'', JNumber 204)]))
     (JString (lit ''http://localhost:3000/scrape'')) 15000 (lit ''http://example.com/'') 0
         JUndefined
   = Inr (\<lparr>content = JString [], pageStatusCode = JNumber 204, pageError =
       JUndefined\<rparr>,
          \<lparr>url = lit ''http://example.com/'', scraper = lit ''playwright'', success = True,
           response_code = JNumber 204, error_message = JUndefined, html = JNull\<rparr>) \<and>
   scrapeWithPlaywright
     (\<lambda>u. Inr (JObject []))
     (\<lambda>req. Inr \<lparr>status = 200, statusText = lit ''OK'', data = JString (lit
         ''null'')\<rparr>)
     (\<lambda>t. Inr JNull)
     (JString (lit ''http://localhost:3000/scrape'')) 15000 (lit ''http://example.com/'') 0
         JUndefined
   = Inr (\<lparr>content = JString [], pageStatusCode = JNull,
           pageError = JString (lit ''Cannot read properties of null (reading 'content')'')\<rparr>,
          \<lparr>url = lit ''http://example.com/'', scraper = lit ''playwright'', success = False,
           response_code = JNull,
           error_message = JString (lit ''Cannot read properties of null (reading 'content')''),
           html = JString []\<rparr>)"
proof -
  let ?gen = "\<lambda>u :: jsstring. (Inr (JObject []) :: jsvalue + jsvalue)"
  let ?ep = "JString (lit ''http://localhost:3000/scrape'')"
  let ?u = "lit ''http://example.com/''"
  let ?resp = "\<lparr>status = 200, statusText = lit ''OK'',
                  data = JString (lit ''{\"content\":null,\"pageStatusCode\":204}'')\<rparr>"
  let ?env = "JObject [(lit ''content'', JNull), (lit ''pageStatusCode'', JNumber 204)]"
  let ?respN = "\<lparr>status = 200, statusText = lit ''OK'', data = JString (lit
      ''null'')\<rparr>"
  have w: "waitParamOf (JObject []) 0 = Inr (JNumber 0)" by code_simp
  have st: "status ?resp = 200" "status ?respN = 200" by simp_all
  have c: "nullish (propOf ?env (lit ''content''))" by code_simp
  have c0: "nullish (propOf JNull (lit ''content''))" by simp
  have n: "\<not> nullish ?env" "nullish JNull" by simp_all
  have v: "propOf ?env (lit ''content'') = JNull"
    "propOf ?env (lit ''pageStatusCode'') = JNumber 204"
    "propOf ?env (lit ''pageError'') = JUndefined"
    by code_simp+
  have m: "propOf (typeError JNull (lit ''content'')) (lit ''message'')
      = JString (lit ''Cannot read properties of null (reading 'content')'')"
    by code_simp
  from playwright_missing_content [where generateRequestParams = ?gen and u = ?u
      and reqParams = "JObject []" and waitFor = 0 and waitParam = "JNumber 0"
      and axios_post = "\<lambda>req. Inr ?resp" and ep = ?ep and T = 15000 and hdrs = JUndefined
      and response = ?resp and JSON_parse = "\<lambda>t. Inr ?env" and envelope = ?env,
      OF _ w _ st(1) _ c] n(1) v
  have a: "scrapeWithPlaywright ?gen (\<lambda>req. Inr ?resp) (\<lambda>t. Inr ?env) ?ep 15000 ?u 0
      JUndefined
   = Inr (\<lparr>content = JString [], pageStatusCode = JNumber 204, pageError =
       JUndefined\<rparr>,
          \<lparr>url = ?u, scraper = lit ''playwright'', success = True,
           response_code = JNumber 204, error_message = JUndefined, html = JNull\<rparr>)"
    by (simp add: initLogParams_def)
  from playwright_missing_content [where generateRequestParams = ?gen and u = ?u
      and reqParams = "JObject []" and waitFor = 0 and waitParam = "JNumber 0"
      and axios_post = "\<lambda>req. Inr ?respN" and ep = ?ep and T = 15000 and hdrs = JUndefined
      and response = ?respN and JSON_parse = "\<lambda>t. Inr JNull" and envelope = JNull,
      OF _ w _ st(2) _ c0] n(2) m
  have b: "scrapeWithPlaywright ?gen (\<lambda>req. Inr ?respN) (\<lambda>t. Inr JNull) ?ep 15000 ?u
      0 JUndefined
   = Inr (\<lparr>content = JString [], pageStatusCode = JNull,
           pageError = JString (lit ''Cannot read properties of null (reading 'content')'')\<rparr>,
          \<lparr>url = ?u, scraper = lit ''playwright'', success = False,
           response_code = JNull,
           error_message = JString (lit ''Cannot read properties of null (reading 'content')''),
           html = JString []\<rparr>)"
    by (simp add: initLogParams_def)
  from a b show ?thesis by blast
qed

text \<open>
  C10, as the claim has it, fails on the body \<open>null\<close>: it parses as JSON and has
  no \<open>content\<close>, yet the call does not take the success path.
\<close>

theorem playwright_null_envelope_counterexample:
  "scrapeWithPlaywright
     (\<lambda>u. Inr (JObject []))
     (axiosPost (\<lambda>req. Inr \<lparr>http_status = 200, reason_phrase = lit ''OK'', body = lit
         ''null''\<rparr>))
     (\<lambda>t. if t = JString (lit ''null'') then Inr JNull
          else Inl (JObject [(lit ''message'', JString (lit ''Unexpected token''))]))
     (JString (lit ''http://localhost:3000/scrape'')) 15000 (lit ''http://example.com/'') 0
         JUndefined
   = Inr (\<lparr>content = JString [], pageStatusCode = JNull,
           pageError = JString (lit ''Cannot read properties of null (reading 'content')'')\<rparr>,
          \<lparr>url = lit ''http://example.com/'', scraper = lit ''playwright'', success = False,
           response_code = JNull,
           error_message = JString (lit ''Cannot read properties of null (reading 'content')''),
           html = JString []\<rparr>)
   \<and> nullish (propOf JNull (lit ''content''))"
  by code_simp

text \<open>
  C1, as the code has it. Every result of \<open>scrapeWithFetch\<close> pairs a status that is
  present and not 200 with an error that is present. So does every result of
  \<open>scrapeWithPlaywright\<close> (with axios as client) on a path other than the success
  path. On the success path the status and the error of the result are those of the
  parsed envelope, so the result has the pairing exactly when the envelope has it.
\<close>

theorem status_pairing_by_backend:
  "(returned (scrapeWithFetch g T u) = Some r \<longrightarrow> statusPaired r) \<and>
   (returned (scrapeWithPlaywright gen (axiosPost http) parse ep T u waitFor hdrs) = Some r' \<and>
    \<not> (\<exists>resp env. requestOutcome gen (axiosPost http) ep T u waitFor hdrs = Inr resp
        \<and>
          status resp = 200 \<and> parse (data resp) = Inr env \<and> \<not> nullish env \<and>
          \<not> isPDFContent (propOf env (lit ''content'')))
    \<longrightarrow> statusPaired r') \<and>
   (requestOutcome gen post ep T u waitFor hdrs = Inr resp \<and> status resp = 200 \<and>
    parse (data resp) = Inr env \<and> \<not> nullish env \<and>
    \<not> isPDFContent (propOf env (lit ''content''))
    \<longrightarrow> (\<exists>r. returned (scrapeWithPlaywright gen post parse ep T u waitFor
        hdrs) = Some r \<and>
           pageStatusCode r = propOf env (lit ''pageStatusCode'') \<and>
           pageError r = propOf env (lit ''pageError'') \<and>
           statusPaired r = bodyPaired env))"
proof (intro conjI impI)
  assume "returned (scrapeWithFetch g T u) = Some r"
  then show "statusPaired r"
    by (auto simp add: returned_def scrapeWithFetch_def Let_def statusPaired_def
        split: sum.splits if_splits prod.splits dest: catchError_content)
next
  assume a: "returned (scrapeWithPlaywright gen (axiosPost http) parse ep T u waitFor hdrs) = Some
      r' \<and>
    \<not> (\<exists>resp env. requestOutcome gen (axiosPost http) ep T u waitFor hdrs = Inr resp
        \<and>
          status resp = 200 \<and> parse (data resp) = Inr env \<and> \<not> nullish env \<and>
          \<not> isPDFContent (propOf env (lit ''content'')))"
  then have ret: "returned (scrapeWithPlaywright gen (axiosPost http) parse ep T u waitFor hdrs) =
      Some r'"
    by blast
  have b: "\<forall>resp. requestOutcome gen (axiosPost http) ep T u waitFor hdrs = Inr resp \<and>
             status resp \<noteq> 200 \<longrightarrow> bodyPaired (data resp)"
    using axiosPost_text_body bodyPaired_text by metis
  have e: "\<forall>resp env. requestOutcome gen (axiosPost http) ep T u waitFor hdrs = Inr resp
      \<and>
             status resp = 200 \<and> parse (data resp) = Inr env \<and>
             \<not> isPDFContent (propOf env (lit ''content'')) \<longrightarrow> bodyPaired env"
  proof (intro allI impI)
    fix resp env
    assume h: "requestOutcome gen (axiosPost http) ep T u waitFor hdrs = Inr resp \<and>
             status resp = 200 \<and> parse (data resp) = Inr env \<and>
             \<not> isPDFContent (propOf env (lit ''content''))"
    with a have "nullish env" by blast
    then show "bodyPaired env" by (simp add: bodyPaired_def optProp_def)
  qed
  from ret b e show "statusPaired r'" by (rule playwright_paired_general)
next
  assume h: "requestOutcome gen post ep T u waitFor hdrs = Inr resp \<and> status resp = 200 \<and>
    parse (data resp) = Inr env \<and> \<not> nullish env \<and>
    \<not> isPDFContent (propOf env (lit ''content''))"
  then have "returned (scrapeWithPlaywright gen post parse ep T u waitFor hdrs) =
     Some \<lparr>content = js_coalesce (propOf env (lit ''content'')) (JString []),
           pageStatusCode = propOf env (lit ''pageStatusCode''),
           pageError = propOf env (lit ''pageError'')\<rparr>"
    by (simp add: playwright_via_requestOutcome handleResponse_success returned_def)
  with h show "\<exists>r. returned (scrapeWithPlaywright gen post parse ep T u waitFor hdrs) = Some
      r \<and>
           pageStatusCode r = propOf env (lit ''pageStatusCode'') \<and>
           pageError r = propOf env (lit ''pageError'') \<and>
           statusPaired r = bodyPaired env"
    by (simp add: statusPaired_success_iff)
qed

theorem status_pairing_by_backend_witness:
  "returned (scrapeWithFetch
      (axiosGet (\<lambda>u t. Inr \<lparr>http_status = 404, reason_phrase = lit ''Not Found'',
                            body = lit ''<html>missing</html>''\<rparr>))
      15000 (lit ''http://example.com/missing''))
     = Some \<lparr>content = JString [], pageStatusCode = JNull,
             pageError = JString (lit ''Request failed with status code 404'')\<rparr> \<and>
   statusPaired \<lparr>content = JString [], pageStatusCode = JNull,
             pageError = JString (lit ''Request failed with status code 404'')\<rparr> \<and>
   returned (scrapeWithPlaywright
      (\<lambda>u. Inr (JObject []))
      (axiosPost (\<lambda>req. Inr \<lparr>http_status = 200, reason_phrase = lit ''OK'',
                              body = lit
                                  ''{\"content\":\"%PDF-1.4\",\"pageStatusCode\":404}''\<rparr>))
      (\<lambda>t. Inr (JObject [(lit ''content'', JString (lit ''%PDF-1.4'')),
                         (lit ''pageStatusCode'', JNumber 404)]))
      (JString (lit ''http://localhost:3000/scrape'')) 15000 (lit ''http://example.com/a.pdf'') 0
      JUndefined)
     = Some \<lparr>content = JString [], pageStatusCode = JNumber 404,
             pageError = JString pdfMessage\<rparr> \<and>
   statusPaired \<lparr>content = JString [], pageStatusCode = JNumber 404,
             pageError = JString pdfMessage\<rparr> \<and>
   (\<exists>r. returned (scrapeWithPlaywright
      (\<lambda>u. Inr (JObject []))
      (axiosPost (\<lambda>req. Inr \<lparr>http_status = 200, reason_phrase = lit ''OK'',
                              body = lit
                                  ''{\"content\":\"gone\",\"pageStatusCode\":404,\"pageError\":\"Not Found\"}''\<rparr>))
      (\<lambda>t. Inr (JObject [(lit ''content'', JString (lit ''gone'')),
                         (lit ''pageStatusCode'', JNumber 404),
                         (lit ''pageError'', JString (lit ''Not Found''))]))
      (JString (lit ''http://localhost:3000/scrape'')) 15000 (lit ''http://example.com/gone'') 0
      JUndefined) = Some r \<and>
      pageStatusCode r = JNumber 404 \<and> pageError r = JString (lit ''Not Found'') \<and>
      statusPaired r)"
proof -
  let ?get = "axiosGet (\<lambda>u t. Inr \<lparr>http_status = 404, reason_phrase = lit
      ''Not Found'',
                            body = lit ''<html>missing</html>''\<rparr>)"
  let ?r = "\<lparr>content = JString [], pageStatusCode = JNull,
             pageError = JString (lit ''Request failed with status code 404'')\<rparr>"
  let ?gen = "\<lambda>u :: jsstring. (Inr (JObject []) :: jsvalue + jsvalue)"
  let ?ep = "JString (lit ''http://localhost:3000/scrape'')"
  let ?postA = "axiosPost (\<lambda>req. Inr \<lparr>http_status = 200, reason_phrase = lit ''OK'',
                              body = lit
                                  ''{\"content\":\"%PDF-1.4\",\"pageStatusCode\":404}''\<rparr>)"
  let ?envA = "JObject [(lit ''content'', JString (lit ''%PDF-1.4'')),
                         (lit ''pageStatusCode'', JNumber 404)]"
  let ?rA = "\<lparr>content = JString [], pageStatusCode = JNumber 404,
             pageError = JString pdfMessage\<rparr>"
  let ?postB = "axiosPost (\<lambda>req. Inr \<lparr>http_status = 200, reason_phrase = lit ''OK'',
                              body = lit
                                  ''{\"content\":\"gone\",\"pageStatusCode\":404,\"pageError\":\"Not Found\"}''\<rparr>)"
  let ?respB = "\<lparr>status = 200, statusText = lit ''OK'',
                 data = JString (lit
                     ''{\"content\":\"gone\",\"pageStatusCode\":404,\"pageError\":\"Not Found\"}'')\<rparr>"
  let ?envB = "JObject [(lit ''content'', JString (lit ''gone'')),
                         (lit ''pageStatusCode'', JNumber 404),
                         (lit ''pageError'', JString (lit ''Not Found''))]"
  have f: "returned (scrapeWithFetch ?get 15000 (lit ''http://example.com/missing'')) = Some ?r"
    by code_simp
  from status_pairing_by_backend [where g = ?get and T = 15000
      and u = "lit ''http://example.com/missing''" and r = ?r, THEN conjunct1] f
  have s: "statusPaired ?r" by blast
  have p1: "returned (scrapeWithPlaywright ?gen ?postA (\<lambda>t. Inr ?envA) ?ep 15000
      (lit ''http://example.com/a.pdf'') 0 JUndefined) = Some ?rA"
    by code_simp
  have pdf: "isPDFContent (propOf ?envA (lit ''content''))" by code_simp
  have n1: "\<not> (\<exists>resp env. requestOutcome ?gen ?postA ?ep 15000 (lit
      ''http://example.com/a.pdf'') 0
        JUndefined = Inr resp \<and> status resp = 200 \<and> (Inr ?envA :: jsvalue + jsvalue) = Inr
            env \<and>
        \<not> nullish env \<and> \<not> isPDFContent (propOf env (lit ''content'')))"
    using pdf by auto
  from status_pairing_by_backend [where gen = ?gen and http = "\<lambda>req. Inr \<lparr>http_status
      = 200, reason_phrase = lit ''OK'',
                              body = lit
                                  ''{\"content\":\"%PDF-1.4\",\"pageStatusCode\":404}''\<rparr>"
      and parse = "\<lambda>t. Inr ?envA" and ep = ?ep and T = 15000
      and u = "lit ''http://example.com/a.pdf''" and waitFor = 0 and hdrs = JUndefined
      and r' = ?rA, THEN conjunct2, THEN conjunct1] p1 n1
  have s1: "statusPaired ?rA" by blast
  have ro: "requestOutcome ?gen ?postB ?ep 15000 (lit ''http://example.com/gone'') 0 JUndefined
      = Inr ?respB"
    by code_simp
  have st: "status ?respB = 200" by simp
  have nn: "\<not> nullish ?envB" by simp
  have np: "\<not> isPDFContent (propOf ?envB (lit ''content''))" by code_simp
  have sc: "propOf ?envB (lit ''pageStatusCode'') = JNumber 404" by code_simp
  have pe: "propOf ?envB (lit ''pageError'') = JString (lit ''Not Found'')" by code_simp
  have bp: "bodyPaired ?envB" by code_simp
  from status_pairing_by_backend [where gen = ?gen and post = ?postB
      and parse = "\<lambda>t. Inr ?envB" and ep = ?ep and T = 15000
      and u = "lit ''http://example.com/gone''" and waitFor = 0 and hdrs = JUndefined
      and resp = ?respB and env = ?envB, THEN conjunct2, THEN conjunct2] ro st nn np
  have "\<exists>r. returned (scrapeWithPlaywright ?gen ?postB (\<lambda>t. Inr ?envB) ?ep 15000
      (lit ''http://example.com/gone'') 0 JUndefined) = Some r \<and>
      pageStatusCode r = propOf ?envB (lit ''pageStatusCode'') \<and>
      pageError r = propOf ?envB (lit ''pageError'') \<and>
      statusPaired r = bodyPaired ?envB"
    by blast
  with sc pe bp have s2: "\<exists>r. returned (scrapeWithPlaywright ?gen ?postB (\<lambda>t. Inr
      ?envB) ?ep 15000
      (lit ''http://example.com/gone'') 0 JUndefined) = Some r \<and>
      pageStatusCode r = JNumber 404 \<and> pageError r = JString (lit ''Not Found'') \<and>
      statusPaired r"
    by auto
  from f s p1 s1 s2 show ?thesis by blast
qed

text \<open>
  C1, as the claim has it, fails on the success path of \<open>scrapeWithPlaywright\<close>: the
  envelope \<open>{"content":"gone","pageStatusCode":404,"pageError":null}\<close> comes back as
  the result with status 404 and no error.
\<close>

theorem playwright_success_unpaired_counterexample:
  "returned (scrapeWithPlaywright
     (\<lambda>u. Inr (JObject []))
     (\<lambda>req. Inr \<lparr>status = 200, statusText = lit ''OK'',
                  data = JString (lit ''{\"content\":\"gone\",\"pageStatusCode\":404,\"pageError\":null}'')\<rparr>)
     (\<lambda>t. if t = JString (lit ''{\"content\":\"gone\",\"pageStatusCode\":404,\"pageError\":null}'')
          then Inr (JObject [(lit ''content'', JString (lit ''gone'')),
                             (lit ''pageStatusCode'', JNumber 404),
                             (lit ''pageError'', JNull)])
          else Inl (JObject [(lit ''message'', JString (lit ''Unexpected token''))]))
     (JString (lit ''http://localhost:3000/scrape'')) 15000 (lit ''http://example.com/gone'') 0 JUndefined)
   = Some \<lparr>content = JString (lit ''gone''), pageStatusCode = JNumber 404, pageError = JNull\<rparr>
   \<and> \<not> statusPaired \<lparr>content = JString (lit ''gone''), pageStatusCode = JNumber 404, pageError = JNull\<rparr>"
  by code_simp

text \<open>
  C3, as the code has it. When the provider returns a value (not \<open>null\<close> or
  \<open>undefined\<close>) that supplies no wait value, the request is posted with the caller's
  \<open>waitFor\<close> as the wait and the call goes on with its response. When the provider
  throws, nothing is posted and the call returns the failure built from the thrown error.
\<close>

theorem playwright_wait_resolution:
  "(generateRequestParams u = Inr reqParams \<and> \<not> nullish reqParams \<and>
    nullish (optProp (propOf reqParams (lit ''params'')) (lit ''wait'')) \<longrightarrow>
    scrapeWithPlaywright generateRequestParams axios_post JSON_parse ep T u waitFor hdrs =
      (case andThen (axios_post (playwrightRequest ep T u (JNumber waitFor) hdrs))
              (handleResponse JSON_parse (initLogParams u (lit ''playwright''))) of
         Inr r \<Rightarrow> Inr r
       | Inl error \<Rightarrow> catchError (initLogParams u (lit ''playwright'')) error)) \<and>
   (generateRequestParams u = Inl error \<and> \<not> nullish error \<longrightarrow>
    returned (scrapeWithPlaywright generateRequestParams axios_post JSON_parse ep T u waitFor hdrs) =
      Some \<lparr>content = JString [], pageStatusCode = JNull,
            pageError = (if propOf error (lit ''code'') = JString (lit ''ECONNABORTED'')
                         then JString (lit ''Request timed out'')
                         else js_or (propOf error (lit ''message'')) error)\<rparr>)"
  by (simp add: scrapeWithPlaywright_def Let_def waitParamOf_def getProp_ok js_coalesce_def
      catchError_ok returned_def)

theorem playwright_wait_resolution_witness:
  "returned (scrapeWithPlaywright
     (\<lambda>u. Inr (JObject [(lit ''params'', JObject [(lit ''wait'', JNull)])]))
     (\<lambda>req. if wait_after_load req = JNumber 250 \<and> timeout_wait req = JNumber 250
            then Inr \<lparr>status = 200, statusText = lit ''OK'', data = JString (lit ''{}'')\<rparr>
            else Inl (JObject [(lit ''message'', JString (lit ''unexpected wait''))]))
     (\<lambda>t. Inr (JObject [(lit ''content'', JString (lit ''hi'')),
                        (lit ''pageStatusCode'', JNumber 200),
                        (lit ''pageError'', JNull)]))
     (JString (lit ''http://localhost:3000/scrape'')) 15000 (lit ''http://example.com/'') 250 JUndefined)
   = Some \<lparr>content = JString (lit ''hi''), pageStatusCode = JNumber 200, pageError = JNull\<rparr>
   \<and>
   returned (scrapeWithPlaywright
     (\<lambda>u. Inl (JObject [(lit ''message'', JString (lit ''provider down''))]))
     (\<lambda>req. Inr \<lparr>status = 200, statusText = lit ''OK'', data = JString (lit ''{}'')\<rparr>)
     (\<lambda>t. Inr (JObject []))
     (JString (lit ''http://localhost:3000/scrape'')) 15000 (lit ''http://example.com/'') 250 JUndefined)
   = Some \<lparr>content = JString [], pageStatusCode = JNull,
           pageError = JString (lit ''provider down'')\<rparr>"
proof -
  let ?rp = "JObject [(lit ''params'', JObject [(lit ''wait'', JNull)])]"
  let ?gen = "\<lambda>u :: jsstring. (Inr ?rp :: jsvalue + jsvalue)"
  let ?post = "\<lambda>req. if wait_after_load req = JNumber 250 \<and> timeout_wait req = JNumber 250
            then Inr \<lparr>status = 200, statusText = lit ''OK'', data = JString (lit ''{}'')\<rparr>
            else (Inl (JObject [(lit ''message'', JString (lit ''unexpected wait''))])
                   :: jsvalue + Response)"
  let ?parse = "\<lambda>t :: jsvalue. (Inr (JObject [(lit ''content'', JString (lit ''hi'')),
                        (lit ''pageStatusCode'', JNumber 200),
                        (lit ''pageError'', JNull)]) :: jsvalue + jsvalue)"
  let ?ep = "JString (lit ''http://localhost:3000/scrape'')"
  let ?u = "lit ''http://example.com/''"
  let ?err = "JObject [(lit ''message'', JString (lit ''provider down''))]"
  have n: "\<not> nullish ?rp" by simp
  have w: "nullish (optProp (propOf ?rp (lit ''params'')) (lit ''wait''))" by code_simp
  have g: "returned (case andThen (?post (playwrightRequest ?ep 15000 ?u (JNumber 250) JUndefined))
              (handleResponse ?parse (initLogParams ?u (lit ''playwright''))) of
         Inr r \<Rightarrow> Inr r
       | Inl error \<Rightarrow> catchError (initLogParams ?u (lit ''playwright'')) error)
     = Some \<lparr>content = JString (lit ''hi''), pageStatusCode = JNumber 200, pageError = JNull\<rparr>"
    by code_simp
  from playwright_wait_resolution [where generateRequestParams = ?gen and u = ?u and reqParams = ?rp
      and axios_post = ?post and JSON_parse = ?parse and ep = ?ep and T = 15000
      and waitFor = 250 and hdrs = JUndefined and error = JNull] n w
  have "scrapeWithPlaywright ?gen ?post ?parse ?ep 15000 ?u 250 JUndefined =
      (case andThen (?post (playwrightRequest ?ep 15000 ?u (JNumber 250) JUndefined))
              (handleResponse ?parse (initLogParams ?u (lit ''playwright''))) of
         Inr r \<Rightarrow> Inr r
       | Inl error \<Rightarrow> catchError (initLogParams ?u (lit ''playwright'')) error)"
    by simp
  with g have a: "returned (scrapeWithPlaywright ?gen ?post ?parse ?ep 15000 ?u 250 JUndefined)
     = Some \<lparr>content = JString (lit ''hi''), pageStatusCode = JNumber 200, pageError = JNull\<rparr>"
    by simp
  have ne: "\<not> nullish ?err" by simp
  have c: "propOf ?err (lit ''code'') \<noteq> JString (lit ''ECONNABORTED'')" by code_simp
  have m: "js_or (propOf ?err (lit ''message'')) ?err = JString (lit ''provider down'')"
    by code_simp
  from playwright_wait_resolution [where generateRequestParams = "\<lambda>u. Inl ?err" and u = ?u and error = ?err
      and axios_post = "\<lambda>req. Inr \<lparr>status = 200, statusText = lit ''OK'', data = JString (lit ''{}'')\<rparr>"
      and JSON_parse = "\<lambda>t. Inr (JObject [])" and ep = ?ep and T = 15000
      and waitFor = 250 and hdrs = JUndefined and reqParams = JNull] ne c m
  have b: "returned (scrapeWithPlaywright (\<lambda>u. Inl ?err)
     (\<lambda>req. Inr \<lparr>status = 200, statusText = lit ''OK'', data = JString (lit ''{}'')\<rparr>)
     (\<lambda>t. Inr (JObject [])) ?ep 15000 ?u 250 JUndefined)
   = Some \<lparr>content = JString [], pageStatusCode = JNull,
           pageError = JString (lit ''provider down'')\<rparr>"
    by simp
  from a b show ?thesis by blast
qed

text \<open>
  C3, as the claim has it, fails when the provider throws: the call returns a failure
  with the provider's message, although the request with the caller's wait of 250 would
  have been answered with a page.
\<close>

theorem playwright_provider_throw_counterexample:
  "returned (scrapeWithPlaywright
     (\<lambda>u. Inl (JObject [(lit ''message'', JString (lit ''provider down''))]))
     (\<lambda>req. Inr \<lparr>status = 200, statusText = lit ''OK'',
                  data = JString (lit ''{\"content\":\"hi\",\"pageStatusCode\":200,\"pageError\":null}'')\<rparr>)
     (\<lambda>t. Inr (JObject [(lit ''content'', JString (lit ''hi'')),
                        (lit ''pageStatusCode'', JNumber 200),
                        (lit ''pageError'', JNull)]))
     (JString (lit ''http://localhost:3000/scrape'')) 15000 (lit ''http://example.com/'') 250 JUndefined)
   = Some \<lparr>content = JString [], pageStatusCode = JNull, pageError = JString (lit ''provider down'')\<rparr>
   \<and>
   returned (andThen
     ((\<lambda>req. Inr \<lparr>status = 200, statusText = lit ''OK'',
                  data = JString (lit ''{\"content\":\"hi\",\"pageStatusCode\":200,\"pageError\":null}'')\<rparr>)
        (playwrightRequest (JString (lit ''http://localhost:3000/scrape'')) 15000
           (lit ''http://example.com/'') (JNumber 250) JUndefined))
     (handleResponse
        (\<lambda>t. Inr (JObject [(lit ''content'', JString (lit ''hi'')),
                        (lit ''pageStatusCode'', JNumber 200),
                        (lit ''pageError'', JNull)]))
        (initLogParams (lit ''http://example.com/'') (lit ''playwright''))))
   = Some \<lparr>content = JString (lit ''hi''), pageStatusCode = JNumber 200, pageError = JNull\<rparr>"
  by code_simp

text \<open>
  C8. The body of the response is text; on a status other than 200 it is not parsed, and
  the optional read of \<open>pageStatusCode\<close> and \<open>pageError\<close> on a string gives
  \<open>undefined\<close>. So the status 404 and the error \<open>Not Found\<close> that the body
  \<open>{"pageStatusCode":404,"pageError":"Not Found"}\<close> carries are not in the result,
  whatever \<open>JSON_parse\<close> would make of the body.
\<close>

theorem playwright_non200_text_body:
  "returned (scrapeWithPlaywright
     (\<lambda>u. Inr (JObject []))
     (\<lambda>req. Inr \<lparr>status = 500, statusText = lit ''Internal Server Error'',
                  data = JString (lit ''{\"pageStatusCode\":404,\"pageError\":\"Not Found\"}'')\<rparr>)
     JSON_parse ep T u waitFor hdrs)
   = Some \<lparr>content = JString [], pageStatusCode = JUndefined, pageError = JUndefined\<rparr>
   \<and>
   returned (scrapeWithPlaywright
     (\<lambda>u. Inr (JObject []))
     (\<lambda>req. Inr \<lparr>status = 202, statusText = lit ''Accepted'',
                  data = JString (lit ''{\"pageStatusCode\":404,\"pageError\":\"Not Found\"}'')\<rparr>)
     JSON_parse ep T u waitFor hdrs)
   = Some \<lparr>content = JString [], pageStatusCode = JUndefined, pageError = JUndefined\<rparr>"
  by (simp add: scraper_defs)

end
